theory Spec2Isabelle
  imports Complex_Main
begin

section \<open>Numbers\<close>

text \<open>
  The dashboard is TypeScript, whose \<^verbatim>\<open>number\<close> is the IEEE 754 binary64 format.
  Timestamps are milliseconds since the epoch: whole numbers far below \<open>2\<^sup>5\<^sup>3\<close>, on which
  the arithmetic of the timeline is exact, so they are modelled as \<^typ>\<open>real\<close>, and so is
  the area of a polygon, which the program reports as an approximation.  The weather
  metrics and the ray casting test are modelled in binary64 arithmetic, defined below.
  \<^verbatim>\<open>Math.round\<close> rounds to the nearest integer, a tie going up.
\<close>

definition Math_round :: "real \<Rightarrow> real" where
  "Math_round x = of_int \<lfloor>x + 1 / 2\<rfloor>"

definition hourMs :: real where
  "hourMs = 60 * 60 * 1000"

definition dayMs :: real where
  "dayMs = 24 * hourMs"


subsection \<open>Binary64 numbers\<close>

text \<open>
  A finite binary64 number is a whole multiple of the quantum of its binade: \<open>2\<^sup>e\<^sup>-\<^sup>5\<^sup>2\<close> for a
  magnitude in \<open>[2\<^sup>e, 2\<^sup>e\<^sup>+\<^sup>1)\<close> with \<open>e \<ge> -1022\<close>, and \<open>2\<^sup>-\<^sup>1\<^sup>0\<^sup>7\<^sup>4\<close> below \<open>2\<^sup>-\<^sup>1\<^sup>0\<^sup>2\<^sup>2\<close>.  The result of
  an arithmetic operation is the exact result rounded to the nearest such multiple, a tie
  going to the even multiple.  \<open>bits n\<close> is the number of binary digits of \<open>n\<close>, and
  \<open>binade x\<close> the exponent \<open>e\<close> with \<open>2\<^sup>e \<le> x < 2\<^sup>e\<^sup>+\<^sup>1\<close> for a positive \<open>x\<close>.
\<close>

fun bits :: "nat \<Rightarrow> nat" where
  "bits n = (if n = 0 then 0 else Suc (bits (n div 2)))"

declare bits.simps [simp del]

definition binade :: "real \<Rightarrow> int" where
  "binade x =
     (if 1 \<le> x then int (bits (nat \<lfloor>x\<rfloor>)) - 1 else - int (bits (nat (\<lceil>1 / x\<rceil> - 1))))"

definition expo :: "real \<Rightarrow> int" where
  "expo x = max (binade \<bar>x\<bar>) (- 1022)"

definition quantum :: "real \<Rightarrow> real" where
  "quantum x = (if x = 0 then 2 powi (- 1074) else 2 powi (max (binade \<bar>x\<bar>) (- 1022) - 52))"

text \<open>The integer nearest to \<open>q\<close>, a tie going to the even one.\<close>

definition rne :: "real \<Rightarrow> int" where
  "rne q =
     (let f = \<lfloor>q\<rfloor>; d = q - of_int f
      in if d < 1 / 2 then f else if 1 / 2 < d then f + 1 else if even f then f else f + 1)"

definition round64 :: "real \<Rightarrow> real" where
  "round64 x = of_int (rne (x / quantum x)) * quantum x"

definition max_double :: real where
  "max_double = (2 ^ 53 - 1) * 2 ^ 971"

definition is_double :: "real \<Rightarrow> bool" where
  "is_double x = (round64 x = x \<and> \<bar>x\<bar> \<le> max_double)"

text \<open>
  The values of a \<^verbatim>\<open>number\<close>.  The two zeros are one value here: no operation of the
  program tells them apart except a division by zero, which is given the result for \<open>+0\<close>.
\<close>

datatype double = Finite real | Infinity | NegInfinity | NotANumber

text \<open>Rounding an exact result: beyond the largest finite number it is an infinity.\<close>

definition to_double :: "real \<Rightarrow> double" where
  "to_double x =
     (let y = round64 x
      in if max_double < y then Infinity else if y < - max_double then NegInfinity else Finite y)"

text \<open>The operators \<^verbatim>\<open>+\<close>, \<^verbatim>\<open>-\<close>, \<^verbatim>\<open>*\<close>, \<^verbatim>\<open>/\<close>, \<^verbatim>\<open>>\<close> and \<^verbatim>\<open><\<close> on numbers.\<close>

fun fadd :: "double \<Rightarrow> double \<Rightarrow> double" where
  "fadd NotANumber b = NotANumber"
| "fadd a NotANumber = NotANumber"
| "fadd (Finite x) (Finite y) = to_double (x + y)"
| "fadd (Finite x) b = b"
| "fadd a (Finite y) = a"
| "fadd Infinity Infinity = Infinity"
| "fadd NegInfinity NegInfinity = NegInfinity"
| "fadd Infinity NegInfinity = NotANumber"
| "fadd NegInfinity Infinity = NotANumber"

fun fneg :: "double \<Rightarrow> double" where
  "fneg (Finite x) = Finite (- x)"
| "fneg Infinity = NegInfinity"
| "fneg NegInfinity = Infinity"
| "fneg NotANumber = NotANumber"

definition fsub :: "double \<Rightarrow> double \<Rightarrow> double" where
  "fsub a b = fadd a (fneg b)"

text \<open>The sign of a number that is not \<^verbatim>\<open>NaN\<close>, and the infinity of a sign.\<close>

fun sign_of :: "double \<Rightarrow> int" where
  "sign_of (Finite x) = (if x < 0 then - 1 else if x = 0 then 0 else 1)"
| "sign_of Infinity = 1"
| "sign_of NegInfinity = - 1"
| "sign_of NotANumber = 0"

definition infinity_of :: "int \<Rightarrow> double" where
  "infinity_of s = (if s = 0 then NotANumber else if 0 < s then Infinity else NegInfinity)"

fun fmul :: "double \<Rightarrow> double \<Rightarrow> double" where
  "fmul NotANumber b = NotANumber"
| "fmul a NotANumber = NotANumber"
| "fmul (Finite x) (Finite y) = to_double (x * y)"
| "fmul a b = infinity_of (sign_of a * sign_of b)"

fun fdiv :: "double \<Rightarrow> double \<Rightarrow> double" where
  "fdiv NotANumber b = NotANumber"
| "fdiv a NotANumber = NotANumber"
| "fdiv (Finite x) (Finite y) =
     (if y = 0 then infinity_of (sign_of (Finite x)) else to_double (x / y))"
| "fdiv (Finite x) b = Finite 0"
| "fdiv a (Finite y) = infinity_of (sign_of a * (if y < 0 then - 1 else 1))"
| "fdiv a b = NotANumber"

fun flt :: "double \<Rightarrow> double \<Rightarrow> bool" where
  "flt NotANumber b = False"
| "flt a NotANumber = False"
| "flt (Finite x) (Finite y) = (x < y)"
| "flt a Infinity = (a \<noteq> Infinity)"
| "flt NegInfinity b = (b \<noteq> NegInfinity)"
| "flt a b = False"

definition fgt :: "double \<Rightarrow> double \<Rightarrow> bool" where
  "fgt a b = flt b a"

text \<open>
  \<^verbatim>\<open>Math.round\<close> on a number: the result is exact, a whole number being a binary64
  number whenever its argument is one.
\<close>

fun Math_round_d :: "double \<Rightarrow> double" where
  "Math_round_d (Finite x) = Finite (Math_round x)"
| "Math_round_d a = a"

text \<open>\<^verbatim>\<open>a || 0\<close> for a number or a missing value: \<open>0\<close> and \<^verbatim>\<open>NaN\<close> are falsy.\<close>

fun or_zero :: "double option \<Rightarrow> double" where
  "or_zero None = Finite 0"
| "or_zero (Some NotANumber) = Finite 0"
| "or_zero (Some a) = a"


section \<open>Geometry utilities (src/lib/leaflet-utils.ts)\<close>

subsection \<open>calculatePolygonArea\<close>

text \<open>
  The loop \<^verbatim>\<open>for (let i = 0; i < n; i++)\<close> with \<^verbatim>\<open>j = (i + 1) % n\<close> adds
  \<^verbatim>\<open>coordinates[i][0] * coordinates[j][1]\<close> to the accumulator and subtracts
  \<^verbatim>\<open>coordinates[j][0] * coordinates[i][1]\<close> from it.  Both indices are below \<open>n\<close>.
\<close>

definition area_step :: "(real \<times> real) list \<Rightarrow> nat \<Rightarrow> real \<Rightarrow> real" where
  "area_step coordinates i area =
     (let n = length coordinates;
          j = (i + 1) mod n;
          area1 = area + fst (coordinates ! i) * snd (coordinates ! j)
      in area1 - fst (coordinates ! j) * snd (coordinates ! i))"

definition kmPerDegree :: real where
  "kmPerDegree = 111.32"

definition calculatePolygonArea :: "(real \<times> real) list \<Rightarrow> real" where
  "calculatePolygonArea coordinates =
     (if length coordinates < 3 then 0
      else let n = length coordinates;
               area = fold (area_step coordinates) [0..<n] 0;
               area' = \<bar>area\<bar> / 2
           in area' * kmPerDegree * kmPerDegree)"

text \<open>The shoelace sum as the specification writes it, over cyclic successors.\<close>

definition shoelace_sum :: "(real \<times> real) list \<Rightarrow> real" where
  "shoelace_sum ps =
     (\<Sum>i<length ps. fst (ps ! i) * snd (ps ! ((i + 1) mod length ps))
                     - fst (ps ! ((i + 1) mod length ps)) * snd (ps ! i))"

definition unit_square :: "(real \<times> real) list" where
  "unit_square = [(0, 0), (1, 0), (1, 1), (0, 1)]"

subsection \<open>isPointInPolygon\<close>





subsection \<open>calculateBounds\<close>



subsection \<open>The centre of a polygon\<close>


subsection \<open>Polygons of the specification\<close>








section \<open>Colour rules (the sidebar's getPolygonColor)\<close>

datatype dataSource = Temperature | Humidity | WindSpeed | Precipitation

text \<open>
  What \<^verbatim>\<open>polygon.weatherData[selectedDataSource]\<close> can be at run time.  \<^verbatim>\<open>typeof\<close> answers
  \<^verbatim>\<open>'number'\<close> for a number and for \<^verbatim>\<open>NaN\<close>; every comparison with \<^verbatim>\<open>NaN\<close> is false.
\<close>

datatype jsval = Undefined | Null | Bool bool | Number real | NaN | Str string

record condition =
  cond_min :: real
  cond_max :: real
  color :: string
  label :: string

record colorRule =
  rule_id :: string
  dataSource :: dataSource
  conditions :: "condition list"

record weatherPolygon =
  poly_id :: string
  coordinates :: "(real \<times> real) list"
  poly_name :: string
  poly_color :: string
  weatherData :: "(dataSource \<Rightarrow> jsval) option"

definition typeof_number :: "jsval \<Rightarrow> bool" where
  "typeof_number v = (case v of Number x \<Rightarrow> True | NaN \<Rightarrow> True | _ \<Rightarrow> False)"

text \<open>The test \<^verbatim>\<open>value >= c.min && value < c.max\<close>.\<close>

definition in_condition :: "jsval \<Rightarrow> condition \<Rightarrow> bool" where
  "in_condition v c = (case v of Number x \<Rightarrow> x \<ge> cond_min c \<and> x < cond_max c | _ \<Rightarrow> False)"

definition currentRule :: "colorRule list \<Rightarrow> dataSource \<Rightarrow> colorRule option" where
  "currentRule colorRules selectedDataSource =
     find (\<lambda>rule. dataSource rule = selectedDataSource) colorRules"

definition gray_400 :: string where
  "gray_400 = ''#gray-400''"

text \<open>
  \<^verbatim>\<open>condition?.color || '#gray-400'\<close>: the default is returned when no condition is found,
  and also when the colour found is the empty string, which is falsy.
\<close>

definition getPolygonColor :: "colorRule list \<Rightarrow> dataSource \<Rightarrow> weatherPolygon \<Rightarrow> string" where
  "getPolygonColor colorRules selectedDataSource polygon =
     (case weatherData polygon of
        None \<Rightarrow> gray_400
      | Some wd \<Rightarrow>
          (case currentRule colorRules selectedDataSource of
             None \<Rightarrow> gray_400
           | Some rule \<Rightarrow>
               (let v = wd selectedDataSource
                in if \<not> typeof_number v then gray_400
                   else (case find (in_condition v) (conditions rule) of
                           None \<Rightarrow> gray_400
                         | Some c \<Rightarrow> if color c = [] then gray_400 else color c))))"

text \<open>The rule and polygons of the specification's example, and a rule whose colour is empty.\<close>

definition blue_red_rule :: colorRule where
  "blue_red_rule =
     \<lparr>rule_id = ''r'', dataSource = Temperature,
      conditions = [\<lparr>cond_min = 0, cond_max = 10, color = ''blue'', label = ''low''\<rparr>,
                    \<lparr>cond_min = 10, cond_max = 20, color = ''red'', label = ''high''\<rparr>]\<rparr>"

definition polygon_with :: "jsval \<Rightarrow> weatherPolygon" where
  "polygon_with v =
     \<lparr>poly_id = ''p'', coordinates = [(0, 0), (1, 0), (0, 1)], poly_name = ''Zone A'',
      poly_color = ''#3b82f6'', weatherData = Some (\<lambda>k. v)\<rparr>"

definition blank_condition :: condition where
  "blank_condition = \<lparr>cond_min = 0, cond_max = 10, color = [], label = ''blank''\<rparr>"

definition blank_rule :: colorRule where
  "blank_rule = \<lparr>rule_id = ''b'', dataSource = Temperature, conditions = [blank_condition]\<rparr>"


section \<open>Weather client (src/lib/weather-api.ts)\<close>

record WeatherData =
  temperature :: double
  humidity :: double
  windSpeed :: double
  precipitation :: double

text \<open>
  The \<^verbatim>\<open>hourly\<close> object of the Open-Meteo response when it has its five members, as the
  API returns them for the variables that the request names: parallel arrays of ISO time
  strings and of readings.  A reading that is \<^verbatim>\<open>null\<close> is \<open>None\<close>; the arrays need not have
  the same length, and an index past the end of an array reads \<^verbatim>\<open>undefined\<close>.
\<close>

record hourly =
  time :: "string list"
  temperature_2m :: "double option list"
  relative_humidity_2m :: "double option list"
  wind_speed_10m :: "double option list"
  precipitation_hourly :: "double option list"

text \<open>
  The \<^verbatim>\<open>hourly\<close> object as it is parsed from the body: each of the five members is an
  array, or is missing (\<open>None\<close>: the member is absent or \<^verbatim>\<open>null\<close>).
\<close>

record hourly_members =
  time_member :: "string list option"
  temperature_2m_member :: "double option list option"
  relative_humidity_2m_member :: "double option list option"
  wind_speed_10m_member :: "double option list option"
  precipitation_member :: "double option list option"

definition all_members :: "hourly \<Rightarrow> hourly_members" where
  "all_members h =
     \<lparr>time_member = Some (time h),
      temperature_2m_member = Some (temperature_2m h),
      relative_humidity_2m_member = Some (relative_humidity_2m h),
      wind_speed_10m_member = Some (wind_speed_10m h),
      precipitation_member = Some (precipitation_hourly h)\<rparr>"

text \<open>
  What \<^verbatim>\<open>await fetch(url)\<close> and \<^verbatim>\<open>await response.json()\<close> give: the request is rejected,
  or there is a response with its \<^verbatim>\<open>ok\<close> flag and a body; the body does not parse, or it
  is data whose \<^verbatim>\<open>hourly\<close> member is present or missing.
\<close>

datatype body = BadBody | Data "hourly_members option"

datatype response = NetworkError | Response bool body

record request =
  latitude :: real
  longitude :: real
  start_date :: string
  end_date :: string

text \<open>
  The platform the function runs on: the network, and the two uses of \<^verbatim>\<open>Date\<close>.
  \<^verbatim>\<open>new Date(t).toISOString()\<close> throws a \<^verbatim>\<open>RangeError\<close> for an invalid date (\<open>None\<close>);
  \<^verbatim>\<open>new Date(s).getTime()\<close> is \<^verbatim>\<open>NaN\<close> for a string that is not a date (\<open>None\<close>), and
  every comparison with \<^verbatim>\<open>NaN\<close> is false.
\<close>

record platform =
  fetch :: "request \<Rightarrow> response"
  toISOString :: "real \<Rightarrow> string option"
  getTime :: "string \<Rightarrow> real option"

datatype failure =
  InvalidTime | FetchRejected | WeatherApiError | BodyUnreadable | NoHourlyData | TypeError
  | NoDataForRange

text \<open>\<^verbatim>\<open>time.findIndex(p)\<close>: the first index whose element satisfies \<open>p\<close>, or \<open>-1\<close>.\<close>

fun findIndex :: "('a \<Rightarrow> bool) \<Rightarrow> 'a list \<Rightarrow> int" where
  "findIndex p [] = - 1"
| "findIndex p (x # xs) =
     (if p x then 0 else (let r = findIndex p xs in if r = - 1 then - 1 else r + 1))"

definition in_time_range :: "platform \<Rightarrow> real \<Rightarrow> real \<Rightarrow> string \<Rightarrow> bool" where
  "in_time_range pf startTime endTime t =
     (case getTime pf t of
        None \<Rightarrow> False
      | Some timeMs \<Rightarrow> timeMs \<ge> startTime \<and> timeMs \<le> endTime)"

text \<open>
  The construction of \<^verbatim>\<open>timeIndices\<close>; \<open>iso_start\<close> is \<^verbatim>\<open>new Date(startTime).toISOString()\<close>.
\<close>

definition timeIndices :: "platform \<Rightarrow> string list \<Rightarrow> real \<Rightarrow> real \<Rightarrow> string \<Rightarrow> nat list" where
  "timeIndices pf hourly_time startTime endTime iso_start =
     (if startTime = endTime
      then (let targetTime = take 13 iso_start @ '':00'';
                index = findIndex (\<lambda>t. t = targetTime) hourly_time
            in if index \<noteq> - 1 then [nat index] else [])
      else filter (\<lambda>i. in_time_range pf startTime endTime (hourly_time ! i)) [0..<length hourly_time])"

text \<open>
  \<^verbatim>\<open>arr[i]\<close> with \<^verbatim>\<open>null\<close> and \<^verbatim>\<open>undefined\<close>, which an index past the end of the array
  reads, both as \<open>None\<close>; and \<^verbatim>\<open>arr[i] || 0\<close>: a reading that is missing, \<^verbatim>\<open>null\<close>, \<open>0\<close> or
  \<^verbatim>\<open>NaN\<close> counts as \<open>0\<close>.
\<close>

definition element :: "'a option list \<Rightarrow> nat \<Rightarrow> 'a option" where
  "element arr i = (if i < length arr then arr ! i else None)"

definition reading :: "double option list \<Rightarrow> nat \<Rightarrow> double" where
  "reading arr i = or_zero (element arr i)"

text \<open>
  \<^verbatim>\<open>timeIndices.reduce((sum, i) => sum + (arr[i] || 0), 0) / timeIndices.length\<close>.  The
  length of an array is a whole number below \<open>2\<^sup>3\<^sup>2\<close>, so it is a binary64 number.
\<close>

definition average :: "double option list \<Rightarrow> nat list \<Rightarrow> double" where
  "average arr indices =
     fdiv (fold (\<lambda>i sum. fadd sum (reading arr i)) indices (Finite 0))
       (Finite (real (length indices)))"

text \<open>\<^verbatim>\<open>Math.round(x * 10) / 10\<close>.\<close>

definition round_tenth :: "double \<Rightarrow> double" where
  "round_tenth x = fdiv (Math_round_d (fmul x (Finite 10))) (Finite 10)"

definition split_T :: "string \<Rightarrow> string" where
  "split_T s = takeWhile (\<lambda>c. c \<noteq> CHR ''T'') s"

text \<open>
  The body of the \<^verbatim>\<open>try\<close> block: \<open>Inl\<close> is an exception thrown inside it.  Reading
  \<^verbatim>\<open>time.findIndex\<close> or \<^verbatim>\<open>time.length\<close> of a missing \<^verbatim>\<open>time\<close> throws a \<^verbatim>\<open>TypeError\<close>, and so
  does \<^verbatim>\<open>arr[i]\<close> on a missing array, in the first call of the callback of \<^verbatim>\<open>reduce\<close>, which
  is made because an index is selected.
\<close>

definition try_block :: "platform \<Rightarrow> real \<Rightarrow> real \<Rightarrow> real \<Rightarrow> real \<Rightarrow> failure + WeatherData" where
  "try_block pf lat lng startTime endTime =
     (case toISOString pf startTime of
        None \<Rightarrow> Inl InvalidTime
      | Some iso_start \<Rightarrow>
     (case toISOString pf endTime of
        None \<Rightarrow> Inl InvalidTime
      | Some iso_end \<Rightarrow>
     (case fetch pf \<lparr>latitude = lat, longitude = lng,
                     start_date = split_T iso_start, end_date = split_T iso_end\<rparr> of
        NetworkError \<Rightarrow> Inl FetchRejected
      | Response ok b \<Rightarrow>
          if \<not> ok then Inl WeatherApiError
          else (case b of
                  BadBody \<Rightarrow> Inl BodyUnreadable
                | Data None \<Rightarrow> Inl NoHourlyData
                | Data (Some h) \<Rightarrow>
     (case time_member h of
        None \<Rightarrow> Inl TypeError
      | Some hourly_time \<Rightarrow>
          (let indices = timeIndices pf hourly_time startTime endTime iso_start
           in if length indices = 0 then Inl NoDataForRange
              else
     (case temperature_2m_member h of
        None \<Rightarrow> Inl TypeError
      | Some temperature_arr \<Rightarrow>
     (case relative_humidity_2m_member h of
        None \<Rightarrow> Inl TypeError
      | Some humidity_arr \<Rightarrow>
     (case wind_speed_10m_member h of
        None \<Rightarrow> Inl TypeError
      | Some wind_arr \<Rightarrow>
     (case precipitation_member h of
        None \<Rightarrow> Inl TypeError
      | Some precipitation_arr \<Rightarrow>
          Inr \<lparr>temperature = round_tenth (average temperature_arr indices),
               humidity = round_tenth (average humidity_arr indices),
               windSpeed = round_tenth (average wind_arr indices),
               precipitation = round_tenth (average precipitation_arr indices)\<rparr>))))))))))"

text \<open>
  The \<^verbatim>\<open>catch\<close> block; \<open>r1\<close> to \<open>r4\<close> are the four results of \<^verbatim>\<open>Math.random()\<close>, in the
  order of the calls.
\<close>

definition mockData :: "double \<times> double \<times> double \<times> double \<Rightarrow> WeatherData" where
  "mockData rnd =
     (let (r1, r2, r3, r4) = rnd
      in \<lparr>temperature = fadd (Finite 15) (fmul r1 (Finite 20)),
          humidity = fadd (Finite 40) (fmul r2 (Finite 40)),
          windSpeed = fmul r3 (Finite 30), precipitation = fmul r4 (Finite 10)\<rparr>)"

definition fetchWeatherData ::
  "platform \<Rightarrow> double \<times> double \<times> double \<times> double \<Rightarrow> real \<Rightarrow> real \<Rightarrow> real \<Rightarrow> real \<Rightarrow> WeatherData" where
  "fetchWeatherData pf rnd lat lng startTime endTime =
     (case try_block pf lat lng startTime endTime of
        Inr w \<Rightarrow> w
      | Inl err \<Rightarrow> mockData rnd)"

text \<open>
  A result of \<^verbatim>\<open>Math.random()\<close>: a binary64 number that is at least \<open>0\<close> and less than \<open>1\<close>.
\<close>

fun random_number :: "double \<Rightarrow> bool" where
  "random_number (Finite r) = (is_double r \<and> 0 \<le> r \<and> r < 1)"
| "random_number a = False"

text \<open>
  A number in the interval from \<open>lo\<close> to \<open>hi\<close>, the upper end left out or not, and the
  ranges of the synthesized metrics: as the specification gives them, with every upper end
  left out, and with the upper ends of the temperature and of the humidity included.
\<close>

fun in_half_open :: "real \<Rightarrow> real \<Rightarrow> double \<Rightarrow> bool" where
  "in_half_open lo hi (Finite x) = (lo \<le> x \<and> x < hi)"
| "in_half_open lo hi a = False"

fun in_closed :: "real \<Rightarrow> real \<Rightarrow> double \<Rightarrow> bool" where
  "in_closed lo hi (Finite x) = (lo \<le> x \<and> x \<le> hi)"
| "in_closed lo hi a = False"

definition synthesized_half_open :: "WeatherData \<Rightarrow> bool" where
  "synthesized_half_open w =
     (in_half_open 15 35 (temperature w) \<and> in_half_open 40 80 (humidity w) \<and>
      in_half_open 0 30 (windSpeed w) \<and> in_half_open 0 10 (precipitation w))"

definition synthesized :: "WeatherData \<Rightarrow> bool" where
  "synthesized w =
     (in_closed 15 35 (temperature w) \<and> in_closed 40 80 (humidity w) \<and>
      in_half_open 0 30 (windSpeed w) \<and> in_half_open 0 10 (precipitation w))"

text \<open>
  The mean that the specification describes: every reading that is missing is replaced by
  \<open>0\<close>, the readings at the selected indices are added from left to right and the sum is
  divided by their number, in binary64 arithmetic; and the exact mean of finite readings.
\<close>

definition zero_filled :: "double option list \<Rightarrow> nat \<Rightarrow> double" where
  "zero_filled arr i = (case element arr i of None \<Rightarrow> Finite 0 | Some v \<Rightarrow> v)"

definition mean_zero_filled :: "double option list \<Rightarrow> nat list \<Rightarrow> double" where
  "mean_zero_filled arr indices =
     fdiv (foldl fadd (Finite 0) (map (zero_filled arr) indices)) (Finite (real (length indices)))"

fun real_of :: "double \<Rightarrow> real" where
  "real_of (Finite x) = x"
| "real_of a = 0"

definition exact_mean :: "double option list \<Rightarrow> nat list \<Rightarrow> real" where
  "exact_mean arr indices =
     (\<Sum>i\<leftarrow>indices. real_of (zero_filled arr i)) / real (length indices)"

text \<open>
  A reading as JSON can give it is a binary64 number or an infinity (from a literal such
  as \<^verbatim>\<open>1e999\<close>), never \<^verbatim>\<open>NaN\<close>; and a reading that is missing or of magnitude at most \<open>b\<close>.
\<close>

definition parsed_reading :: "double option \<Rightarrow> bool" where
  "parsed_reading v = (v \<noteq> Some NotANumber)"

definition bounded_reading :: "real \<Rightarrow> double option \<Rightarrow> bool" where
  "bounded_reading b v =
     (case v of
        None \<Rightarrow> True
      | Some (Finite x) \<Rightarrow> \<bar>x\<bar> \<le> b
      | Some a \<Rightarrow> False)"

text \<open>
  Rounded to one decimal place: \<open>y\<close> is the binary64 number nearest to a whole number of
  tenths that is at most \<open>1/20 + eps\<close> from \<open>x\<close>.
\<close>

definition one_decimal_of :: "real \<Rightarrow> double \<Rightarrow> real \<Rightarrow> bool" where
  "one_decimal_of eps y x =
     (\<exists>k::int. y = Finite (round64 (of_int k / 10)) \<and> \<bar>of_int k / 10 - x\<bar> \<le> 1 / 20 + eps)"

text \<open>A platform and a response to run the client on.\<close>

definition sample_hourly :: hourly where
  "sample_hourly =
     \<lparr>time = [''1970-01-01T00:00'', ''1970-01-01T01:00'', ''1970-01-01T02:00''],
      temperature_2m = [Some (Finite 10), None, Some (Finite 21)],
      relative_humidity_2m = [Some (Finite 50), Some (Finite 60), Some (Finite 70)],
      wind_speed_10m = [Some (Finite 3), Some (Finite 4)],
      precipitation_hourly = [None, None, None]\<rparr>"

text \<open>
  Two readings, the binary64 numbers nearest to \<open>0.1\<close> and to \<open>4.6\<close>, at the first two
  times, and the response without its precipitation array.
\<close>

definition two_readings :: hourly where
  "two_readings =
     sample_hourly\<lparr>temperature_2m := [Some (Finite (round64 (1 / 10))),
                                      Some (Finite (round64 (46 / 10)))]\<rparr>"


definition no_precipitation :: hourly_members where
  "no_precipitation = (all_members sample_hourly)\<lparr>precipitation_member := None\<rparr>"

definition sample_platform :: "response \<Rightarrow> platform" where
  "sample_platform r =
     \<lparr>fetch = (\<lambda>req. r),
      toISOString = (\<lambda>t. if t = 0 then Some ''1970-01-01T00:00:00.000Z''
                          else if t = 3600000 then Some ''1970-01-01T01:00:00.000Z''
                          else if t = 7200000 then Some ''1970-01-01T02:00:00.000Z''
                          else if t = 86400000 then Some ''1970-01-02T00:00:00.000Z''
                          else None),
      getTime = (\<lambda>s. if s = ''1970-01-01T00:00'' then Some 0
                      else if s = ''1970-01-01T01:00'' then Some 3600000
                      else if s = ''1970-01-01T02:00'' then Some 7200000
                      else None)\<rparr>"

text \<open>
  The failures of a request that was sent: the network rejects it, the response is not a
  success, its body cannot be read, the \<^verbatim>\<open>hourly\<close> data is missing, or no hourly index is
  selected, or the times or an array of readings are missing.
\<close>

definition request_failed :: "platform \<Rightarrow> request \<Rightarrow> real \<Rightarrow> real \<Rightarrow> string \<Rightarrow> bool" where
  "request_failed pf req startTime endTime iso_start =
     (case fetch pf req of
        NetworkError \<Rightarrow> True
      | Response ok b \<Rightarrow>
          \<not> ok \<or>
          (case b of
             BadBody \<Rightarrow> True
           | Data None \<Rightarrow> True
           | Data (Some h) \<Rightarrow>
               (case time_member h of
                  None \<Rightarrow> True
                | Some hourly_time \<Rightarrow>
                    timeIndices pf hourly_time startTime endTime iso_start = [] \<or>
                    temperature_2m_member h = None \<or> relative_humidity_2m_member h = None \<or>
                    wind_speed_10m_member h = None \<or> precipitation_member h = None)))"

section \<open>Time window (the WeatherTimeline component)\<close>

datatype mode = SingleMode | RangeMode

text \<open>
  \<^verbatim>\<open>TimeSelection\<close>: the mode, and the optional members \<^verbatim>\<open>single\<close> and \<^verbatim>\<open>range\<close>.  Every
  handler passes a fresh object to \<^verbatim>\<open>onTimeSelectionChange\<close>, with the member of the other
  mode left out; a handler that does not call it leaves the selection as it is.
\<close>

record timeSelection =
  mode :: mode
  single :: "real option"
  range_ts :: "(real \<times> real) option"

definition fifteenDaysMs :: real where
  "fifteenDaysMs = 15 * 24 * 60 * 60 * 1000"

definition timeExtent :: "real \<Rightarrow> real \<times> real" where
  "timeExtent now = (now - fifteenDaysMs, now + fifteenDaysMs)"

definition positionToTime :: "real \<Rightarrow> real \<Rightarrow> real" where
  "positionToTime now position =
     (let (start, end') = timeExtent now;
          timestamp = start + (position / 100) * (end' - start)
      in Math_round (timestamp / (60 * 60 * 1000)) * (60 * 60 * 1000))"

definition single_selection :: "real \<Rightarrow> timeSelection" where
  "single_selection t = \<lparr>mode = SingleMode, single = Some t, range_ts = None\<rparr>"

definition range_selection :: "real \<Rightarrow> real \<Rightarrow> timeSelection" where
  "range_selection start end' = \<lparr>mode = RangeMode, single = None, range_ts = Some (start, end')\<rparr>"

text \<open>
  \<^verbatim>\<open>moveTime\<close>.  The test \<^verbatim>\<open>timeSelection.mode === 'single' && timeSelection.single\<close> fails
  for a missing member and for the number \<open>0\<close>, which is falsy; an array is always truthy.
\<close>

definition moveTime :: "real \<Rightarrow> real \<Rightarrow> timeSelection \<Rightarrow> timeSelection" where
  "moveTime now deltaMs ts =
     (case mode ts of
        SingleMode \<Rightarrow>
          (case single ts of
             None \<Rightarrow> ts
           | Some t \<Rightarrow>
               if t = 0 then ts
               else single_selection
                      (max (fst (timeExtent now)) (min (snd (timeExtent now)) (t + deltaMs))))
      | RangeMode \<Rightarrow>
          (case range_ts ts of
             None \<Rightarrow> ts
           | Some (start, end') \<Rightarrow>
               (let duration = end' - start;
                    newStart = max (fst (timeExtent now))
                                 (min (snd (timeExtent now) - duration) (start + deltaMs))
                in range_selection newStart (newStart + duration))))"

datatype key =
  Space | ArrowLeft | ArrowRight | ArrowUp | ArrowDown | Home | End | KeyR | QuestionMark
  | OtherKey

record keyboardEvent =
  key :: key
  shiftKey :: bool
  ctrlKey :: bool
  metaKey :: bool
  target_is_input :: bool

text \<open>
  The effect of \<^verbatim>\<open>handleKeyDown\<close> on the time selection.  The space bar and the question
  mark change other state of the component only.
\<close>

definition handleKeyDown :: "real \<Rightarrow> keyboardEvent \<Rightarrow> timeSelection \<Rightarrow> timeSelection" where
  "handleKeyDown now e ts =
     (if target_is_input e then ts
      else case key e of
        ArrowLeft \<Rightarrow>
          if shiftKey e then moveTime now (- dayMs) ts
          else if ctrlKey e \<or> metaKey e then moveTime now (- 7 * dayMs) ts
          else moveTime now (- hourMs) ts
      | ArrowRight \<Rightarrow>
          if shiftKey e then moveTime now dayMs ts
          else if ctrlKey e \<or> metaKey e then moveTime now (7 * dayMs) ts
          else moveTime now hourMs ts
      | ArrowUp \<Rightarrow>
          (case mode ts of
             SingleMode \<Rightarrow> ts
           | RangeMode \<Rightarrow>
               (case range_ts ts of
                  None \<Rightarrow> ts
                | Some (start, end') \<Rightarrow>
                    (let expansion = (if shiftKey e then dayMs else hourMs)
                     in range_selection (max (fst (timeExtent now)) (start - expansion))
                          (min (snd (timeExtent now)) (end' + expansion)))))
      | ArrowDown \<Rightarrow>
          (case mode ts of
             SingleMode \<Rightarrow> ts
           | RangeMode \<Rightarrow>
               (case range_ts ts of
                  None \<Rightarrow> ts
                | Some (start, end') \<Rightarrow>
                    (let contraction = (if shiftKey e then dayMs else hourMs);
                         newStart = start + contraction;
                         newEnd = end' - contraction
                     in if newEnd > newStart then range_selection newStart newEnd else ts)))
      | Home \<Rightarrow>
          (case mode ts of
             SingleMode \<Rightarrow> single_selection (fst (timeExtent now))
           | RangeMode \<Rightarrow>
               (case range_ts ts of
                  None \<Rightarrow> ts
                | Some (start, end') \<Rightarrow>
                    (let duration = end' - start
                     in range_selection (fst (timeExtent now)) (fst (timeExtent now) + duration))))
      | End \<Rightarrow>
          (case mode ts of
             SingleMode \<Rightarrow> single_selection (snd (timeExtent now))
           | RangeMode \<Rightarrow>
               (case range_ts ts of
                  None \<Rightarrow> ts
                | Some (start, end') \<Rightarrow>
                    (let duration = end' - start
                     in range_selection (snd (timeExtent now) - duration) (snd (timeExtent now)))))
      | KeyR \<Rightarrow>
          (case mode ts of
             SingleMode \<Rightarrow>
               (case single ts of
                  None \<Rightarrow> ts
                | Some t \<Rightarrow> if t = 0 then ts else range_selection (t - hourMs) (t + hourMs))
           | RangeMode \<Rightarrow>
               (case range_ts ts of
                  None \<Rightarrow> ts
                | Some (start, end') \<Rightarrow> single_selection ((start + end') / 2)))
      | _ \<Rightarrow> ts)"

datatype dragging = DragStart | DragEnd | DragSingle | DragRange

text \<open>
  \<^verbatim>\<open>handleMouseMove\<close>; \<open>pointer\<close> is \<^verbatim>\<open>((e.clientX - rect.left) / rect.width) * 100\<close>, the
  place of the pointer along the timeline in percent, before it is clamped to \<open>[0, 100]\<close>.
\<close>

definition handleMouseMove ::
  "real \<Rightarrow> dragging option \<Rightarrow> real \<Rightarrow> timeSelection \<Rightarrow> timeSelection" where
  "handleMouseMove now isDragging pointer ts =
     (case isDragging of
        None \<Rightarrow> ts
      | Some d \<Rightarrow>
          (let position = max 0 (min 100 pointer);
               newTime = positionToTime now position
           in if mode ts = SingleMode \<and> d = DragSingle then single_selection newTime
              else case mode ts of
                SingleMode \<Rightarrow> ts
              | RangeMode \<Rightarrow>
                  (case range_ts ts of
                     None \<Rightarrow> ts
                   | Some (start, end') \<Rightarrow>
                       (case d of
                          DragStart \<Rightarrow>
                            range_selection (min newTime (end' - 60 * 60 * 1000)) end'
                        | DragEnd \<Rightarrow>
                            range_selection start (max newTime (start + 60 * 60 * 1000))
                        | DragRange \<Rightarrow>
                            (let duration = end' - start;
                                 newStart = max (fst (timeExtent now))
                                              (min (snd (timeExtent now) - duration)
                                                 (newTime - duration / 2))
                             in range_selection newStart (newStart + duration))
                        | DragSingle \<Rightarrow> ts))))"

text \<open>\<^verbatim>\<open>handleTimelineClick\<close>; the position of a click is not clamped.\<close>

definition handleTimelineClick ::
  "real \<Rightarrow> dragging option \<Rightarrow> real \<Rightarrow> timeSelection \<Rightarrow> timeSelection" where
  "handleTimelineClick now isDragging pointer ts =
     (case isDragging of
        Some d \<Rightarrow> ts
      | None \<Rightarrow>
          (let clickedTime = positionToTime now pointer
           in case mode ts of
                SingleMode \<Rightarrow> single_selection clickedTime
              | RangeMode \<Rightarrow>
                  (case range_ts ts of
                     None \<Rightarrow> ts
                   | Some (start, end') \<Rightarrow>
                       (let duration = end' - start;
                            newStart = max (fst (timeExtent now))
                                         (min (snd (timeExtent now) - duration)
                                            (clickedTime - duration / 2))
                        in range_selection newStart (newStart + duration)))))"

text \<open>The invariants of a range: its ends are in order, and it lies inside the extent.\<close>

definition ordered :: "timeSelection \<Rightarrow> bool" where
  "ordered ts = (case range_ts ts of None \<Rightarrow> True | Some (start, end') \<Rightarrow> start \<le> end')"

definition within_extent :: "real \<Rightarrow> timeSelection \<Rightarrow> bool" where
  "within_extent now ts =
     (case range_ts ts of
        None \<Rightarrow> True
      | Some (start, end') \<Rightarrow> fst (timeExtent now) \<le> start \<and> end' \<le> snd (timeExtent now))"


section \<open>Persistence (src/lib/storage.ts)\<close>

text \<open>
  The values that \<^verbatim>\<open>JSON.parse\<close> returns and \<^verbatim>\<open>JSON.stringify\<close> writes.  An object is the
  list of its members; a member that is absent reads as \<^verbatim>\<open>undefined\<close>.
\<close>

datatype json =
  JNull | JBool bool | JNum real | JStr string | JArr "json list" | JObj "(string \<times> json) list"

definition truthy :: "json \<Rightarrow> bool" where
  "truthy j =
     (case j of
        JNull \<Rightarrow> False
      | JBool b \<Rightarrow> b
      | JNum x \<Rightarrow> x \<noteq> 0
      | JStr s \<Rightarrow> s \<noteq> []
      | JArr xs \<Rightarrow> True
      | JObj ms \<Rightarrow> True)"

definition isArray :: "json \<Rightarrow> bool" where
  "isArray j = (case j of JArr xs \<Rightarrow> True | _ \<Rightarrow> False)"

definition isString :: "json \<Rightarrow> bool" where
  "isString j = (case j of JStr s \<Rightarrow> True | _ \<Rightarrow> False)"

text \<open>
  \<^verbatim>\<open>parsed.k\<close> for a value that is not \<^verbatim>\<open>null\<close>: the member of an object, and
  \<^verbatim>\<open>undefined\<close> (\<open>None\<close>) when the object has no such member or the value is not an object.
\<close>

definition member_of :: "json \<Rightarrow> string \<Rightarrow> json option" where
  "member_of j k = (case j of JObj ms \<Rightarrow> map_of ms k | _ \<Rightarrow> None)"

record StorageData =
  polygons :: json
  colorRules :: json
  selectedDataSource :: json
  timeSelection :: json
  mapView :: json

definition condition_json :: "real \<Rightarrow> real \<Rightarrow> string \<Rightarrow> string \<Rightarrow> json" where
  "condition_json lo hi c l =
     JObj [(''min'', JNum lo), (''max'', JNum hi), (''color'', JStr c), (''label'', JStr l)]"

definition rule_json :: "string \<Rightarrow> string \<Rightarrow> json list \<Rightarrow> json" where
  "rule_json i src cs = JObj [(''id'', JStr i), (''dataSource'', JStr src), (''conditions'', JArr cs)]"

definition default_colorRules :: json where
  "default_colorRules =
     JArr [rule_json ''temp-default'' ''temperature''
             [condition_json (- 50) 0 ''#3b82f6'' ''Very Cold'',
              condition_json 0 10 ''#06b6d4'' ''Cold'',
              condition_json 10 20 ''#10b981'' ''Mild'',
              condition_json 20 30 ''#f59e0b'' ''Warm'',
              condition_json 30 50 ''#ef4444'' ''Hot''],
           rule_json ''humidity-default'' ''humidity''
             [condition_json 0 30 ''#fbbf24'' ''Dry'',
              condition_json 30 60 ''#10b981'' ''Comfortable'',
              condition_json 60 80 ''#3b82f6'' ''Humid'',
              condition_json 80 100 ''#1e40af'' ''Very Humid''],
           rule_json ''wind-default'' ''windSpeed''
             [condition_json 0 10 ''#10b981'' ''Calm'',
              condition_json 10 20 ''#f59e0b'' ''Breezy'',
              condition_json 20 40 ''#ef4444'' ''Windy'',
              condition_json 40 100 ''#7c2d12'' ''Very Windy''],
           rule_json ''precip-default'' ''precipitation''
             [condition_json 0 1 ''#e5e7eb'' ''None'',
              condition_json 1 5 ''#3b82f6'' ''Light'',
              condition_json 5 15 ''#1d4ed8'' ''Moderate'',
              condition_json 15 50 ''#1e3a8a'' ''Heavy'']]"

text \<open>\<^verbatim>\<open>defaultState\<close>; \<open>now\<close> is the value of \<^verbatim>\<open>Date.now()\<close> at the call.\<close>

definition defaultState :: "real \<Rightarrow> StorageData" where
  "defaultState now =
     \<lparr>polygons = JArr [],
      colorRules = default_colorRules,
      selectedDataSource = JStr ''temperature'',
      timeSelection = JObj [(''mode'', JStr ''single''), (''single'', JNum now)],
      mapView = JObj [(''center'', JArr [JNum 40.7128, JNum (- 74.0060)]), (''zoom'', JNum 10)]\<rparr>"

text \<open>
  The text under the storage key, by what the code does with it: the empty string, which
  is falsy; a text that \<^verbatim>\<open>JSON.parse\<close> rejects; or the text of a JSON value, which
  \<^verbatim>\<open>JSON.parse\<close> returns.  \<^verbatim>\<open>JSON.stringify\<close> writes a text of the last kind, for the value
  it is given.
\<close>

datatype stored_text = EmptyText | Garbled | Encoded json

text \<open>
  The browser: whether \<^verbatim>\<open>window\<close> is defined, whether \<^verbatim>\<open>localStorage.getItem\<close> and
  \<^verbatim>\<open>localStorage.setItem\<close> return rather than throw, and the item under the storage key.
\<close>

record browser =
  has_window :: bool
  readable :: bool
  writable :: bool
  item :: "stored_text option"

text \<open>\<^verbatim>\<open>Array.isArray(v) ? v : d\<close> and \<^verbatim>\<open>v || d\<close>, for a member that may be absent.\<close>

definition array_or :: "json option \<Rightarrow> json \<Rightarrow> json" where
  "array_or v d = (case v of None \<Rightarrow> d | Some x \<Rightarrow> if isArray x then x else d)"

definition truthy_or :: "json option \<Rightarrow> json \<Rightarrow> json" where
  "truthy_or v d = (case v of None \<Rightarrow> d | Some x \<Rightarrow> if truthy x then x else d)"

text \<open>
  \<^verbatim>\<open>getFromStorage\<close>.  Every exception of the \<^verbatim>\<open>try\<close> block ends in the \<^verbatim>\<open>catch\<close> block,
  which returns the default state: \<^verbatim>\<open>getItem\<close> throwing, \<^verbatim>\<open>JSON.parse\<close> throwing, and the
  read of a member of \<^verbatim>\<open>null\<close>.
\<close>

definition getFromStorage :: "real \<Rightarrow> browser \<Rightarrow> StorageData" where
  "getFromStorage now br =
     (if \<not> has_window br then defaultState now
      else if \<not> readable br then defaultState now
      else case item br of
        None \<Rightarrow> defaultState now
      | Some EmptyText \<Rightarrow> defaultState now
      | Some Garbled \<Rightarrow> defaultState now
      | Some (Encoded parsed) \<Rightarrow>
          (case parsed of
             JNull \<Rightarrow> defaultState now
           | _ \<Rightarrow>
             \<lparr>polygons = array_or (member_of parsed ''polygons'') (polygons (defaultState now)),
              colorRules =
                array_or (member_of parsed ''colorRules'') (colorRules (defaultState now)),
              selectedDataSource =
                truthy_or (member_of parsed ''selectedDataSource'')
                  (selectedDataSource (defaultState now)),
              timeSelection =
                truthy_or (member_of parsed ''timeSelection'') (timeSelection (defaultState now)),
              mapView = truthy_or (member_of parsed ''mapView'') (mapView (defaultState now))\<rparr>))"

text \<open>
  The values that the application holds in memory and passes to a save.  Besides what
  JSON can write they include \<^verbatim>\<open>undefined\<close>, \<^verbatim>\<open>NaN\<close> and the two infinities: the
  sidebar stores \<^verbatim>\<open>parseFloat(e.target.value)\<close> in a colour rule, which is \<^verbatim>\<open>NaN\<close> for an
  empty input, and a polygon is created with \<^verbatim>\<open>weatherData: undefined\<close>.
\<close>

datatype jsvalue =
  VUndefined | VNull | VBool bool | VNum real | VNaN | VInfinity | VNegInfinity | VStr string
  | VArr "jsvalue list" | VObj "(string \<times> jsvalue) list"

text \<open>
  What \<^verbatim>\<open>JSON.parse(JSON.stringify(v))\<close> is: \<^verbatim>\<open>NaN\<close> and the infinities are written as
  \<^verbatim>\<open>null\<close>; \<^verbatim>\<open>undefined\<close> is written as \<^verbatim>\<open>null\<close> in an array, left out of an object,
  and nothing at all is written for it alone (\<open>None\<close>).  A finite number is written
  with the digits that read back as the same number.
\<close>

fun to_json :: "jsvalue \<Rightarrow> json option"
  and elements_json :: "jsvalue list \<Rightarrow> json list"
  and members_json :: "(string \<times> jsvalue) list \<Rightarrow> (string \<times> json) list" where
  "to_json VUndefined = None"
| "to_json VNull = Some JNull"
| "to_json (VBool b) = Some (JBool b)"
| "to_json (VNum x) = Some (JNum x)"
| "to_json VNaN = Some JNull"
| "to_json VInfinity = Some JNull"
| "to_json VNegInfinity = Some JNull"
| "to_json (VStr s) = Some (JStr s)"
| "to_json (VArr xs) = Some (JArr (elements_json xs))"
| "to_json (VObj ms) = Some (JObj (members_json ms))"
| "elements_json [] = []"
| "elements_json (x # xs) = (case to_json x of None \<Rightarrow> JNull | Some j \<Rightarrow> j) # elements_json xs"
| "members_json [] = []"
| "members_json ((k, v) # ms) =
     (case to_json v of None \<Rightarrow> members_json ms | Some j \<Rightarrow> (k, j) # members_json ms)"

text \<open>A parsed value, as the value in memory that it is.\<close>

fun of_json :: "json \<Rightarrow> jsvalue"
  and of_elements :: "json list \<Rightarrow> jsvalue list"
  and of_members :: "(string \<times> json) list \<Rightarrow> (string \<times> jsvalue) list" where
  "of_json JNull = VNull"
| "of_json (JBool b) = VBool b"
| "of_json (JNum x) = VNum x"
| "of_json (JStr s) = VStr s"
| "of_json (JArr xs) = VArr (of_elements xs)"
| "of_json (JObj ms) = VObj (of_members ms)"
| "of_elements [] = []"
| "of_elements (x # xs) = of_json x # of_elements xs"
| "of_members [] = []"
| "of_members ((k, v) # ms) = (k, of_json v) # of_members ms"

text \<open>
  A member of \<^verbatim>\<open>Partial<StorageData>\<close>: not there, or there with a value, which may be
  \<^verbatim>\<open>undefined\<close>.
\<close>

datatype 'a partial = Absent | Given 'a

record PartialData =
  polygons_p :: "jsvalue partial"
  colorRules_p :: "jsvalue partial"
  selectedDataSource_p :: "jsvalue partial"
  timeSelection_p :: "jsvalue partial"
  mapView_p :: "jsvalue partial"

text \<open>
  A member of \<^verbatim>\<open>{ ...existing, ...data }\<close>: the member of \<open>data\<close> when it is there, and the
  member of \<open>existing\<close> otherwise.
\<close>

definition spread :: "json \<Rightarrow> jsvalue partial \<Rightarrow> jsvalue" where
  "spread old p = (case p of Absent \<Rightarrow> of_json old | Given v \<Rightarrow> v)"

definition stringify :: "(string \<times> jsvalue) list \<Rightarrow> stored_text" where
  "stringify ms = Encoded (JObj (members_json ms))"

text \<open>
  \<^verbatim>\<open>saveToStorage\<close>.  The state before is read with \<^verbatim>\<open>getFromStorage\<close>; when
  \<^verbatim>\<open>localStorage.setItem\<close> throws, the exception is caught and nothing is written.
\<close>

definition saveToStorage :: "real \<Rightarrow> PartialData \<Rightarrow> browser \<Rightarrow> browser" where
  "saveToStorage now data br =
     (let existing = getFromStorage now br;
          updated = [(''polygons'', spread (polygons existing) (polygons_p data)),
                     (''colorRules'', spread (colorRules existing) (colorRules_p data)),
                     (''selectedDataSource'',
                        spread (selectedDataSource existing) (selectedDataSource_p data)),
                     (''timeSelection'', spread (timeSelection existing) (timeSelection_p data)),
                     (''mapView'', spread (mapView existing) (mapView_p data))]
      in if writable br then br\<lparr>item := Some (stringify updated)\<rparr> else br)"

definition clearStorage :: "browser \<Rightarrow> browser" where
  "clearStorage br = (if writable br then br\<lparr>item := None\<rparr> else br)"

text \<open>The member of the stored blob that a load can read, if any.\<close>

definition stored_member :: "browser \<Rightarrow> string \<Rightarrow> json option" where
  "stored_member br k =
     (if has_window br \<and> readable br
      then (case item br of Some (Encoded parsed) \<Rightarrow> member_of parsed k | _ \<Rightarrow> None)
      else None)"

definition fresh_browser :: browser where
  "fresh_browser = \<lparr>has_window = True, readable = True, writable = True, item = None\<rparr>"

text \<open>The five members by name, with the check that a load applies to each.\<close>

datatype field = Polygons | ColorRules | SelectedDataSource | TimeSelection | MapView

definition field_key :: "field \<Rightarrow> string" where
  "field_key f =
     (case f of
        Polygons \<Rightarrow> ''polygons''
      | ColorRules \<Rightarrow> ''colorRules''
      | SelectedDataSource \<Rightarrow> ''selectedDataSource''
      | TimeSelection \<Rightarrow> ''timeSelection''
      | MapView \<Rightarrow> ''mapView'')"

definition get_field :: "field \<Rightarrow> StorageData \<Rightarrow> json" where
  "get_field f st =
     (case f of
        Polygons \<Rightarrow> polygons st
      | ColorRules \<Rightarrow> colorRules st
      | SelectedDataSource \<Rightarrow> selectedDataSource st
      | TimeSelection \<Rightarrow> timeSelection st
      | MapView \<Rightarrow> mapView st)"

definition get_partial :: "field \<Rightarrow> PartialData \<Rightarrow> jsvalue partial" where
  "get_partial f data =
     (case f of
        Polygons \<Rightarrow> polygons_p data
      | ColorRules \<Rightarrow> colorRules_p data
      | SelectedDataSource \<Rightarrow> selectedDataSource_p data
      | TimeSelection \<Rightarrow> timeSelection_p data
      | MapView \<Rightarrow> mapView_p data)"

text \<open>
  The check that a load applies to a member, on the value in memory: \<^verbatim>\<open>Array.isArray\<close>
  for the polygons and the colour rules, truthiness for the other three.
\<close>

definition truthy_value :: "jsvalue \<Rightarrow> bool" where
  "truthy_value v =
     (case v of
        VUndefined \<Rightarrow> False
      | VNull \<Rightarrow> False
      | VBool b \<Rightarrow> b
      | VNum x \<Rightarrow> x \<noteq> 0
      | VNaN \<Rightarrow> False
      | VInfinity \<Rightarrow> True
      | VNegInfinity \<Rightarrow> True
      | VStr s \<Rightarrow> s \<noteq> []
      | VArr xs \<Rightarrow> True
      | VObj ms \<Rightarrow> True)"

definition isArray_value :: "jsvalue \<Rightarrow> bool" where
  "isArray_value v = (case v of VArr xs \<Rightarrow> True | _ \<Rightarrow> False)"

definition valid_value :: "field \<Rightarrow> jsvalue \<Rightarrow> bool" where
  "valid_value f v =
     (case f of
        Polygons \<Rightarrow> isArray_value v
      | ColorRules \<Rightarrow> isArray_value v
      | SelectedDataSource \<Rightarrow> truthy_value v
      | TimeSelection \<Rightarrow> truthy_value v
      | MapView \<Rightarrow> truthy_value v)"

definition valid_field :: "field \<Rightarrow> json \<Rightarrow> bool" where
  "valid_field f v =
     (case f of
        Polygons \<Rightarrow> isArray v
      | ColorRules \<Rightarrow> isArray v
      | SelectedDataSource \<Rightarrow> truthy v
      | TimeSelection \<Rightarrow> truthy v
      | MapView \<Rightarrow> truthy v)"

text \<open>A state of the application: the five members, as values in memory.\<close>

record AppState =
  polygons_s :: jsvalue
  colorRules_s :: jsvalue
  selectedDataSource_s :: jsvalue
  timeSelection_s :: jsvalue
  mapView_s :: jsvalue

definition state_field :: "field \<Rightarrow> AppState \<Rightarrow> jsvalue" where
  "state_field f st =
     (case f of
        Polygons \<Rightarrow> polygons_s st
      | ColorRules \<Rightarrow> colorRules_s st
      | SelectedDataSource \<Rightarrow> selectedDataSource_s st
      | TimeSelection \<Rightarrow> timeSelection_s st
      | MapView \<Rightarrow> mapView_s st)"

definition whole_state :: "AppState \<Rightarrow> PartialData" where
  "whole_state st =
     \<lparr>polygons_p = Given (polygons_s st), colorRules_p = Given (colorRules_s st),
      selectedDataSource_p = Given (selectedDataSource_s st),
      timeSelection_p = Given (timeSelection_s st), mapView_p = Given (mapView_s st)\<rparr>"

text \<open>A value in memory that JSON writes and reads back unchanged.\<close>

definition json_value :: "jsvalue \<Rightarrow> bool" where
  "json_value v = (case to_json v of None \<Rightarrow> False | Some j \<Rightarrow> of_json j = v)"

definition sample_state :: AppState where
  "sample_state =
     \<lparr>polygons_s = VArr [VObj [(''id'', VStr ''zone''), (''weatherData'', VNull)]],
      colorRules_s = VArr [],
      selectedDataSource_s = VStr ''humidity'',
      timeSelection_s = VObj [(''mode'', VStr ''single''), (''single'', VNum 5)],
      mapView_s = VObj [(''zoom'', VNum 3)]\<rparr>"

text \<open>
  The state after the sidebar has put \<^verbatim>\<open>parseFloat('')\<close> in the lower bound of a
  condition.
\<close>

definition nan_state :: AppState where
  "nan_state =
     sample_state\<lparr>colorRules_s :=
       VArr [VObj [(''id'', VStr ''temp-default''), (''dataSource'', VStr ''temperature''),
                   (''conditions'',
                      VArr [VObj [(''min'', VNaN), (''max'', VNum 10), (''color'', VStr ''#06b6d4''),
                                  (''label'', VStr ''Cold'')]])]]\<rparr>"

definition only_polygons :: PartialData where
  "only_polygons =
     \<lparr>polygons_p = Given (VArr []), colorRules_p = Absent, selectedDataSource_p = Absent,
      timeSelection_p = Absent, mapView_p = Absent\<rparr>"

definition only_source :: PartialData where
  "only_source =
     \<lparr>polygons_p = Absent, colorRules_p = Absent, selectedDataSource_p = Given (VStr ''humidity''),
      timeSelection_p = Absent, mapView_p = Absent\<rparr>"

definition wind_browser :: browser where
  "wind_browser =
     fresh_browser\<lparr>item := Some (Encoded (JObj [(''selectedDataSource'', JStr ''windSpeed'')]))\<rparr>"

definition oops_browser :: browser where
  "oops_browser =
     fresh_browser\<lparr>item := Some (Encoded (JObj [(''polygons'', JStr ''oops'')]))\<rparr>"

definition number_browser :: browser where
  "number_browser =
     fresh_browser\<lparr>item := Some (Encoded (JObj [(''selectedDataSource'', JNum 42)]))\<rparr>"


section \<open>Properties of binary64 rounding\<close>

lemma bits_bounds: "0 < n \<Longrightarrow> 2 ^ (bits n - 1) \<le> n \<and> n < 2 ^ bits n"
proof (induction n rule: bits.induct)
  case (1 n)
  show ?case
  proof (cases "n div 2 = 0")
    case True
    with "1.prems" have "n = 1" by (auto simp: div_eq_0_iff)
    moreover have "bits (Suc 0) = Suc 0"
      by (simp add: bits.simps [of "Suc 0"] bits.simps [of 0])
    ultimately show ?thesis
      by simp
  next
    case False
    then have m: "0 < n div 2" by simp
    from "1.prems" have n0: "n \<noteq> 0" by simp
    from "1.IH" [OF n0 m] have lo: "2 ^ (bits (n div 2) - 1) \<le> n div 2"
      and hi: "n div 2 < 2 ^ bits (n div 2)" by simp_all
    have b: "bits n = Suc (bits (n div 2))"
      using n0 by (simp add: bits.simps [of n])
    from m hi have pos: "0 < bits (n div 2)"
      by (cases "bits (n div 2)") simp_all
    then have "(2::nat) ^ bits (n div 2) = 2 * 2 ^ (bits (n div 2) - 1)"
      by (cases "bits (n div 2)") simp_all
    with lo have "(2::nat) ^ bits (n div 2) \<le> 2 * (n div 2)" by simp
    also have "\<dots> \<le> n" by simp
    finally have l: "(2::nat) ^ (bits n - 1) \<le> n" by (simp add: b)
    from hi have "n div 2 + 1 \<le> 2 ^ bits (n div 2)" by simp
    then have "2 * (n div 2 + 1) \<le> 2 * 2 ^ bits (n div 2)" by simp
    moreover have "n < 2 * (n div 2 + 1)" by presburger
    ultimately have "n < 2 ^ bits n" by (simp add: b)
    with l show ?thesis by simp
  qed
qed

lemma bits_pos: "0 < n \<Longrightarrow> 0 < bits n"
  by (simp add: bits.simps [of n])

lemma binade_bounds:
  assumes "0 < x"
  shows "2 powi (binade x) \<le> x \<and> x < 2 powi (binade x + 1)"
proof (cases "1 \<le> x")
  case True
  define n where "n = nat \<lfloor>x\<rfloor>"
  from True have n: "0 < n" by (simp add: n_def)
  have b: "binade x = int (bits n) - 1"
    using True by (simp add: binade_def n_def)
  from bits_pos [OF n] have e: "int (bits n) - 1 = int (bits n - 1)" by simp
  from bits_bounds [OF n] have "(2::nat) ^ (bits n - 1) \<le> n" "n + 1 \<le> 2 ^ bits n"
    by simp_all
  then have "real (2 ^ (bits n - 1)) \<le> real n" "real (n + 1) \<le> real (2 ^ bits n)"
    by (simp_all only: of_nat_le_iff)
  then have r: "(2::real) ^ (bits n - 1) \<le> real n" "real n + 1 \<le> 2 ^ bits n"
    by simp_all
  moreover have "real n \<le> x" "x < real n + 1"
  proof -
    from True have "real n = of_int \<lfloor>x\<rfloor>" by (simp add: n_def)
    then show "real n \<le> x" "x < real n + 1" by linarith+
  qed
  ultimately have "2 ^ (bits n - 1) \<le> x" "x < 2 ^ bits n"
    by linarith+
  moreover have "int (bits n) - 1 + 1 = int (bits n)" by simp
  ultimately show ?thesis
    unfolding b by (simp only: e power_int_of_nat)
next
  case False
  with assms have x1: "x < 1" by simp
  from assms x1 have "1 < 1 / x" by simp
  then have c: "2 \<le> \<lceil>1 / x\<rceil>" by linarith
  define m where "m = nat (\<lceil>1 / x\<rceil> - 1)"
  from c have m: "0 < m" unfolding m_def by linarith
  have b: "binade x = - int (bits m)"
    using False by (simp add: binade_def m_def)
  have rm: "real m = of_int \<lceil>1 / x\<rceil> - 1"
  proof -
    from c have "0 \<le> \<lceil>1 / x\<rceil> - 1" by linarith
    then have "real (nat (\<lceil>1 / x\<rceil> - 1)) = of_int (\<lceil>1 / x\<rceil> - 1)"
      by (rule of_nat_nat)
    then show ?thesis by (simp add: m_def)
  qed
  have "real m < 1 / x" "1 / x \<le> real m + 1"
    unfolding rm by linarith+
  moreover have "(2::real) ^ (bits m - 1) \<le> real m" "real m + 1 \<le> 2 ^ bits m"
  proof -
    from bits_bounds [OF m] have "(2::nat) ^ (bits m - 1) \<le> m" "m + 1 \<le> 2 ^ bits m"
      by simp_all
    then have "real (2 ^ (bits m - 1)) \<le> real m" "real (m + 1) \<le> real (2 ^ bits m)"
      by (simp_all only: of_nat_le_iff)
    then show "(2::real) ^ (bits m - 1) \<le> real m" "real m + 1 \<le> 2 ^ bits m"
      by simp_all
  qed
  ultimately have lo: "2 ^ (bits m - 1) < 1 / x" and hi: "1 / x \<le> 2 ^ bits m"
    by linarith+
  from hi assms have "1 \<le> x * 2 ^ bits m"
    by (simp add: field_simps)
  then have l: "2 powi (- int (bits m)) \<le> x"
    by (simp add: power_int_minus field_simps)
  from lo assms have "x * 2 ^ (bits m - 1) < 1"
    by (simp add: field_simps)
  then have "x < 2 powi (- int (bits m - 1))"
    by (simp add: power_int_minus field_simps)
  moreover from bits_pos [OF m] have "- int (bits m) + 1 = - int (bits m - 1)" by simp
  ultimately have "x < 2 powi (- int (bits m) + 1)"
    by (simp only:)
  with l show ?thesis by (simp add: b)
qed

lemma binade_unique:
  assumes "0 < x" "2 powi e \<le> x" "x < 2 powi (e + 1)"
  shows "binade x = e"
proof -
  from binade_bounds [OF assms(1)] have b: "2 powi (binade x) \<le> x" "x < 2 powi (binade x + 1)"
    by simp_all
  have "(2::real) powi e < 2 powi (binade x + 1)" using assms(2) b(2) by simp
  then have "e < binade x + 1"
    by (metis power_int_increasing not_less one_le_numeral)
  moreover have "(2::real) powi (binade x) < 2 powi (e + 1)" using assms(3) b(1) by simp
  then have "binade x < e + 1"
    by (metis power_int_increasing not_less one_le_numeral)
  ultimately show ?thesis by simp
qed


lemma pow2_add: "(2::real) powi (a + b) = 2 powi a * 2 powi b"
  by (simp add: power_int_add)

lemma pow2_less: "(2::real) powi a < 2 powi b \<Longrightarrow> a < b"
  by (metis power_int_increasing not_less one_le_numeral)

lemma pow2_le: "a \<le> b \<Longrightarrow> (2::real) powi a \<le> 2 powi b"
  by (intro power_int_increasing) simp_all

lemma binade_mono:
  assumes "0 < x" "x \<le> y"
  shows "binade x \<le> binade y"
proof -
  from assms have y: "0 < y" by simp
  from binade_bounds [OF assms(1)] binade_bounds [OF y] assms(2)
  have "(2::real) powi (binade x) < 2 powi (binade y + 1)" by linarith
  then have "binade x < binade y + 1"
    by (metis power_int_increasing not_less one_le_numeral)
  then show ?thesis by simp
qed

lemma rne_cases:
  "rne q = \<lfloor>q\<rfloor> \<or> rne q = \<lfloor>q\<rfloor> + 1"
  by (simp add: rne_def Let_def)

lemma rne_bounds: "\<bar>of_int (rne q) - q\<bar> \<le> 1 / 2"
proof -
  have "of_int \<lfloor>q\<rfloor> \<le> q" "q < of_int \<lfloor>q\<rfloor> + 1" by linarith+
  then show ?thesis
    by (auto simp: rne_def Let_def abs_le_iff)
qed

lemma rne_of_int [simp]: "rne (of_int k) = k"
  by (simp add: rne_def)

lemma rne_mono:
  assumes "q \<le> q'"
  shows "rne q \<le> rne q'"
proof (cases "\<lfloor>q\<rfloor> = \<lfloor>q'\<rfloor>")
  case True
  with assms have "q - of_int \<lfloor>q\<rfloor> \<le> q' - of_int \<lfloor>q'\<rfloor>" by simp
  with True show ?thesis
    by (auto simp: rne_def Let_def)
next
  case False
  with assms have "\<lfloor>q\<rfloor> < \<lfloor>q'\<rfloor>"
    using floor_mono [OF assms] by simp
  moreover have "rne q \<le> \<lfloor>q\<rfloor> + 1" "\<lfloor>q'\<rfloor> \<le> rne q'"
    using rne_cases [of q] rne_cases [of q'] by auto
  ultimately show ?thesis by simp
qed

lemma rne_neg: "rne (- q) = - rne q"
proof (cases "q = of_int \<lfloor>q\<rfloor>")
  case True
  then obtain k where "q = of_int k" by blast
  then have "- q = of_int (- k)" by simp
  then show ?thesis
    unfolding \<open>q = of_int k\<close> by (metis rne_of_int)
next
  case False
  then have "of_int \<lfloor>q\<rfloor> < q" "q < of_int \<lfloor>q\<rfloor> + 1"
    by linarith+
  then have "of_int (- \<lfloor>q\<rfloor> - 1) \<le> - q" "- q < of_int (- \<lfloor>q\<rfloor> - 1) + 1"
    by linarith+
  then have f: "\<lfloor>- q\<rfloor> = - \<lfloor>q\<rfloor> - 1"
    by (rule floor_unique)
  show ?thesis
    unfolding rne_def Let_def f
    by (cases "even \<lfloor>q\<rfloor>") (auto simp: algebra_simps)
qed

lemma quantum_pos [simp]: "0 < quantum x"
  by (simp add: quantum_def)

lemma quantum_neg [simp]: "quantum (- x) = quantum x"
  by (simp add: quantum_def)

lemma round64_neg: "round64 (- x) = - round64 x"
  by (simp add: round64_def rne_neg)

lemma rne_zero [simp]: "rne 0 = 0"
  by (simp add: rne_def)

lemma round64_zero [simp]: "round64 0 = 0"
  by (simp add: round64_def)

lemma quantum_nonneg [simp]: "0 \<le> quantum x"
  using quantum_pos [of x] by linarith

lemma quantum_nonzero [simp]: "quantum x \<noteq> 0"
  using quantum_pos [of x] by linarith

lemma round64_nonneg:
  assumes "0 \<le> x"
  shows "0 \<le> round64 x"
proof -
  from assms have "0 \<le> x / quantum x" by simp
  then have "rne 0 \<le> rne (x / quantum x)" by (rule rne_mono)
  then have "0 \<le> rne (x / quantum x)"
    by simp
  then show ?thesis by (simp add: round64_def)
qed

lemma round64_error: "\<bar>round64 x - x\<bar> \<le> quantum x / 2"
proof -
  have "round64 x - x = (of_int (rne (x / quantum x)) - x / quantum x) * quantum x"
    by (simp add: round64_def algebra_simps)
  then have "\<bar>round64 x - x\<bar> = \<bar>of_int (rne (x / quantum x)) - x / quantum x\<bar> * quantum x"
    by (simp add: abs_mult)
  also have "\<dots> \<le> 1 / 2 * quantum x"
    by (intro mult_right_mono rne_bounds) simp
  finally show ?thesis by simp
qed

lemma quantum_expo: "x \<noteq> 0 \<Longrightarrow> quantum x = 2 powi (expo x - 52)"
  by (simp add: quantum_def expo_def)

lemma round64_upper:
  assumes "0 < x"
  shows "round64 x \<le> 2 powi (expo x + 1)"
proof -
  from assms have q: "quantum x = 2 powi (expo x - 52)" by (simp add: quantum_expo)
  from binade_bounds [OF assms] have "x < 2 powi (binade x + 1)" by simp
  also have "\<dots> \<le> 2 powi (expo x + 1)"
    using assms by (intro power_int_increasing) (simp_all add: expo_def)
  finally have "x / quantum x \<le> 2 powi (expo x + 1) / quantum x"
    by (intro divide_right_mono) simp_all
  also have "2 powi (expo x + 1) / quantum x = of_int (2 ^ 53)"
    unfolding q by (simp add: power_int_diff [symmetric])
  finally have "rne (x / quantum x) \<le> rne (of_int (2 ^ 53))" by (rule rne_mono)
  then have "of_int (rne (x / quantum x)) \<le> (2::real) ^ 53"
    by (simp only: rne_of_int) (metis of_int_le_iff of_int_numeral of_int_power)
  then have "round64 x \<le> 2 ^ 53 * quantum x"
    by (simp add: round64_def mult_right_mono)
  also have "\<dots> = 2 powi (expo x + 1)"
  proof -
    have "(2::real) ^ 53 * 2 powi (expo x - 52) = 2 powi 53 * 2 powi (expo x - 52)"
      by simp
    also have "\<dots> = 2 powi (53 + (expo x - 52))"
      by (simp only: pow2_add)
    also have "53 + (expo x - 52) = expo x + 1" by simp
    finally show ?thesis unfolding q .
  qed
  finally show ?thesis .
qed


lemma round64_lower:
  assumes "0 < x" "- 1022 \<le> binade x"
  shows "2 powi (expo x) \<le> round64 x"
proof -
  from assms have e: "expo x = binade x" by (simp add: expo_def)
  from assms have q: "quantum x = 2 powi (expo x - 52)" by (simp add: quantum_expo)
  have "2 powi (expo x) = 2 powi 52 * quantum x"
    unfolding q by (simp only: pow2_add [symmetric]) simp
  then have p: "2 powi (expo x) = of_int (2 ^ 52) * quantum x" by simp
  from binade_bounds [OF assms(1)] have "2 powi (expo x) \<le> x" by (simp add: e)
  then have "of_int (2 ^ 52) * quantum x / quantum x \<le> x / quantum x"
    unfolding p by (intro divide_right_mono) simp_all
  then have "of_int (2 ^ 52) \<le> x / quantum x" by simp
  then have "rne (of_int (2 ^ 52)) \<le> rne (x / quantum x)" by (rule rne_mono)
  then have "(2::int) ^ 52 \<le> rne (x / quantum x)" by (simp only: rne_of_int)
  then have "of_int (2 ^ 52) \<le> (of_int (rne (x / quantum x)) :: real)"
    by (simp only: of_int_le_iff)
  then have "of_int (2 ^ 52) * quantum x \<le> round64 x"
    unfolding round64_def by (intro mult_right_mono) simp_all
  then show ?thesis by (simp only: p)
qed

lemma round64_mono_pos:
  assumes "0 < x" "x \<le> y"
  shows "round64 x \<le> round64 y"
proof -
  from assms have y: "0 < y" by simp
  have ab: "\<bar>x\<bar> = x" "\<bar>y\<bar> = y" using assms by simp_all
  have le: "expo x \<le> expo y"
    using binade_mono [OF assms] by (simp add: expo_def ab)
  show ?thesis
  proof (cases "expo x = expo y")
    case True
    then have q: "quantum x = quantum y"
      using assms y by (simp add: quantum_expo)
    from assms(2) have "x / quantum y \<le> y / quantum y"
      by (intro divide_right_mono) simp_all
    then have "rne (x / quantum y) \<le> rne (y / quantum y)" by (rule rne_mono)
    then have "(of_int (rne (x / quantum y)) :: real) \<le> of_int (rne (y / quantum y))"
      by simp
    then show ?thesis
      unfolding round64_def q by (intro mult_right_mono) simp_all
  next
    case False
    with le have lt: "expo x + 1 \<le> expo y" by simp
    then have "- 1022 < expo y" by (simp add: expo_def)
    then have b: "- 1022 \<le> binade y" by (simp add: expo_def ab split: if_splits)
    have "round64 x \<le> 2 powi (expo x + 1)" by (rule round64_upper [OF assms(1)])
    also have "\<dots> \<le> 2 powi (expo y)" by (rule pow2_le [OF lt])
    also have "\<dots> \<le> round64 y" by (rule round64_lower [OF y b])
    finally show ?thesis .
  qed
qed

lemma round64_mono:
  assumes "x \<le> y"
  shows "round64 x \<le> round64 y"
proof -
  consider (pos) "0 < x" | (neg) "y < 0" | (mid) "x \<le> 0" "0 \<le> y"
    using assms by linarith
  then show ?thesis
  proof cases
    case pos
    then show ?thesis using assms by (rule round64_mono_pos)
  next
    case neg
    with assms have "0 < - y" "- y \<le> - x" by simp_all
    then have "round64 (- y) \<le> round64 (- x)" by (rule round64_mono_pos)
    then show ?thesis by (simp add: round64_neg)
  next
    case mid
    from mid(1) have "0 \<le> round64 (- x)" by (intro round64_nonneg) simp
    then have "round64 x \<le> 0" by (simp add: round64_neg)
    also from mid(2) have "0 \<le> round64 y" by (rule round64_nonneg)
    finally show ?thesis .
  qed
qed

text \<open>Rounding a number whose binade is known.\<close>

lemma round64_eval:
  assumes "2 powi e \<le> \<bar>x\<bar>" "\<bar>x\<bar> < 2 powi (e + 1)" "- 1022 \<le> e"
  shows "round64 x = of_int (rne (x / 2 powi (e - 52))) * 2 powi (e - 52)"
proof -
  from assms(1) have p: "0 < \<bar>x\<bar>"
    using zero_less_power_int [of "2::real" e] by linarith
  then have x: "x \<noteq> 0" by simp
  from binade_unique [OF p assms(1,2)] assms(3) have "expo x = e"
    by (simp add: expo_def)
  with x show ?thesis
    by (simp add: round64_def quantum_expo)
qed

text \<open>Rounded results that are finite, and numbers that rounding leaves as they are.\<close>

lemma max_double_ge: "2 ^ 1023 \<le> max_double"
proof -
  have "(2::real) ^ 1023 = 2 ^ 52 * 2 ^ 971"
    by (simp only: power_add [symmetric]) simp
  also have "\<dots> \<le> (2 ^ 53 - 1) * 2 ^ 971"
    by (intro mult_right_mono) simp_all
  finally show ?thesis by (simp add: max_double_def)
qed

lemma max_double_large: "x \<le> 2 ^ 64 \<Longrightarrow> x \<le> max_double"
proof -
  assume "x \<le> 2 ^ 64"
  also have "(2::real) ^ 64 \<le> 2 ^ 1023"
    by (intro power_increasing) simp_all
  also note max_double_ge
  finally show ?thesis .
qed

lemma to_double_finite:
  "\<bar>x\<bar> \<le> b \<Longrightarrow> round64 b \<le> 2 ^ 64 \<Longrightarrow> to_double x = Finite (round64 x)"
proof -
  assume a: "\<bar>x\<bar> \<le> b" "round64 b \<le> 2 ^ 64"
  from a(1) have "x \<le> b" "- b \<le> x" by linarith+
  then have "round64 x \<le> round64 b" "round64 (- b) \<le> round64 x"
    by (simp_all only: round64_mono)
  with a(2) have "round64 x \<le> 2 ^ 64" "- (2 ^ 64) \<le> round64 x"
    by (simp_all add: round64_neg)
  then have "round64 x \<le> max_double" "- max_double \<le> round64 x"
    using max_double_large [of "round64 x"] max_double_large [of "2 ^ 64"] by linarith+
  then show ?thesis
    by (simp add: to_double_def Let_def)
qed

lemma round64_exact:
  assumes "2 powi e \<le> \<bar>x\<bar>" "\<bar>x\<bar> < 2 powi (e + 1)" "- 1022 \<le> e"
    and "x / 2 powi (e - 52) = of_int k"
  shows "round64 x = x"
proof -
  have "round64 x = of_int k * 2 powi (e - 52)"
    unfolding round64_eval [OF assms(1-3)] assms(4) by simp
  also have "\<dots> = x / 2 powi (e - 52) * 2 powi (e - 52)"
    by (simp only: assms(4))
  also have "\<dots> = x" by simp
  finally show ?thesis .
qed

text \<open>The error of a rounding of a number of magnitude at most \<open>2\<^sup>2\<^sup>5\<close>.\<close>

lemma quantum_le:
  assumes "\<bar>y\<bar> < 2 powi (e + 1)" "- 1022 \<le> e"
  shows "quantum y \<le> 2 powi (e - 52)"
proof (cases "y = 0")
  case True
  from assms(2) have "(2::real) powi (- 1074) \<le> 2 powi (e - 52)"
    by (intro pow2_le) simp
  with True show ?thesis by (simp add: quantum_def)
next
  case False
  then have p: "0 < \<bar>y\<bar>" by simp
  from binade_bounds [OF p] assms(1) have "(2::real) powi (binade \<bar>y\<bar>) < 2 powi (e + 1)"
    by linarith
  then have "binade \<bar>y\<bar> < e + 1" by (rule pow2_less)
  with assms(2) have "max (binade \<bar>y\<bar>) (- 1022) - 52 \<le> e - 52" by simp
  then have "(2::real) powi (max (binade \<bar>y\<bar>) (- 1022) - 52) \<le> 2 powi (e - 52)"
    by (rule pow2_le)
  with False show ?thesis by (simp add: quantum_def)
qed

lemma round64_close:
  assumes "\<bar>y\<bar> \<le> 2 ^ 25"
  shows "\<bar>round64 y - y\<bar> \<le> 1 / 10 ^ 8"
proof -
  from assms have "\<bar>y\<bar> < 2 powi (25 + 1)" by simp
  then have "quantum y \<le> 2 powi (25 - 52)"
    by (rule quantum_le) simp
  with round64_error [of y] have "\<bar>round64 y - y\<bar> \<le> 2 powi (25 - 52) / 2"
    by linarith
  also have "\<dots> \<le> 1 / 10 ^ 8" by simp
  finally show ?thesis .
qed

lemma round64_pow25: "round64 (2 ^ 25) = 2 ^ 25"
  by (rule round64_exact [where e = 25 and k = "2 ^ 52"]) simp_all

lemma to_double_close:
  assumes "\<bar>y\<bar> \<le> 2 ^ 25"
  shows "\<exists>z. to_double y = Finite z \<and> \<bar>z - y\<bar> \<le> 1 / 10 ^ 8"
proof -
  have "round64 (2 ^ 25) \<le> 2 ^ 64"
    unfolding round64_pow25 by (intro power_increasing) simp_all
  with assms have "to_double y = Finite (round64 y)"
    by (rule to_double_finite)
  with round64_close [OF assms] show ?thesis by simp
qed

text \<open>Whole numbers below \<open>2\<^sup>5\<^sup>3\<close> are binary64 numbers.\<close>

lemma round64_of_int:
  assumes "\<bar>k\<bar> < 2 ^ 53"
  shows "round64 (of_int k) = of_int k"
proof (cases "k = 0")
  case True
  then show ?thesis by simp
next
  case False
  define x :: real where "x = of_int k"
  define e where "e = binade \<bar>x\<bar>"
  from False have p: "0 < \<bar>x\<bar>" and one: "1 \<le> \<bar>x\<bar>"
    by (simp_all add: x_def flip: of_int_abs)
  from binade_bounds [OF p] have b: "2 powi e \<le> \<bar>x\<bar>" "\<bar>x\<bar> < 2 powi (e + 1)"
    by (simp_all add: e_def)
  from one b(2) have "(2::real) powi 0 < 2 powi (e + 1)" by simp
  then have e0: "0 \<le> e" using pow2_less [of 0 "e + 1"] by simp
  from assms have "\<bar>x\<bar> < 2 ^ 53"
    unfolding x_def of_int_abs [symmetric] by (metis of_int_less_iff of_int_numeral of_int_power)
  with b(1) have "(2::real) powi e < 2 powi 53" by simp
  then have e52: "e \<le> 52" using pow2_less [of e 53] by simp
  define j where "j = k * 2 ^ nat (52 - e)"
  have "2 powi (e - 52) * 2 powi (52 - e) = (1::real)"
    by (simp only: pow2_add [symmetric]) simp
  then have "x / 2 powi (e - 52) = x * 2 powi (52 - e)"
    by (simp add: field_simps)
  also have "(2::real) powi (52 - e) = 2 ^ nat (52 - e)"
    using e52 by (simp add: power_int_def)
  finally have "x / 2 powi (e - 52) = of_int j"
    by (simp add: j_def x_def)
  with b e0 have "round64 x = x"
    by (intro round64_exact [where e = e and k = j]) simp_all
  then show ?thesis by (simp add: x_def)
qed

lemma round64_numeral [simp]:
  "numeral w < (2::int) ^ 53 \<Longrightarrow> round64 (numeral w) = numeral w"
  using round64_of_int [of "numeral w"] by simp

lemma to_double_small: "\<bar>x\<bar> \<le> 2 ^ 25 \<Longrightarrow> to_double x = Finite (round64 x)"
  using to_double_close [of x] by (auto simp: to_double_def Let_def split: if_splits)

lemma to_double_0: "to_double 0 = Finite 0"
  using to_double_small [of 0] by simp

lemma fadd_small:
  "\<bar>x + y\<bar> \<le> 2 ^ 25 \<Longrightarrow> fadd (Finite x) (Finite y) = Finite (round64 (x + y))"
  using to_double_close [of "x + y"] by (auto simp: to_double_def Let_def split: if_splits)

lemma fmul_small:
  "\<bar>x * y\<bar> \<le> 2 ^ 25 \<Longrightarrow> fmul (Finite x) (Finite y) = Finite (round64 (x * y))"
  using to_double_close [of "x * y"] by (auto simp: to_double_def Let_def split: if_splits)

lemma fdiv_small:
  "\<bar>x / y\<bar> \<le> 2 ^ 25 \<Longrightarrow> y \<noteq> 0 \<Longrightarrow> fdiv (Finite x) (Finite y) = Finite (round64 (x / y))"
  using to_double_close [of "x / y"] by (auto simp: to_double_def Let_def split: if_splits)


section \<open>Properties of the geometry utilities\<close>

lemma fold_area_step:
  "fold (area_step ps) [0..<k] a =
     a + (\<Sum>i<k. fst (ps ! i) * snd (ps ! ((i + 1) mod length ps))
                  - fst (ps ! ((i + 1) mod length ps)) * snd (ps ! i))"
  by (induction k) (simp_all add: area_step_def Let_def algebra_simps)

text \<open>
  Claim C5.  For a coordinate list of at least three points the area is the absolute
  value of the shoelace sum, halved, times \<open>111.32\<^sup>2\<close>; the square of side one degree
  has area \<open>111.32\<^sup>2\<close>; a list of fewer than three points has area \<open>0\<close>.
\<close>

theorem calculatePolygonArea_shoelace:
  "(3 \<le> length ps \<longrightarrow>
      calculatePolygonArea ps = \<bar>shoelace_sum ps\<bar> / 2 * (111.32 * 111.32))
   \<and> (length ps < 3 \<longrightarrow> calculatePolygonArea ps = 0)
   \<and> calculatePolygonArea unit_square = 111.32 * 111.32"
proof (intro conjI impI)
  assume "3 \<le> length ps"
  then show "calculatePolygonArea ps = \<bar>shoelace_sum ps\<bar> / 2 * (111.32 * 111.32)"
    by (simp add: calculatePolygonArea_def Let_def fold_area_step shoelace_sum_def
        kmPerDegree_def)
next
  assume "length ps < 3"
  then show "calculatePolygonArea ps = 0"
    by (simp add: calculatePolygonArea_def)
next
  have l: "length unit_square = 4"
    by (simp add: unit_square_def)
  have "fold (area_step unit_square) [0..<4] 0 = 2"
    by (simp add: upt_rec area_step_def unit_square_def Let_def)
  then have "fold (area_step unit_square) [0..<length unit_square] 0 = 2"
    by (simp only: l)
  then show "calculatePolygonArea unit_square = 111.32 * 111.32"
    by (simp add: calculatePolygonArea_def Let_def kmPerDegree_def l)
qed

theorem calculatePolygonArea_shoelace_witness:
  "3 \<le> length [(0, 0), (4, 0), (0, 3 :: real)]
   \<and> calculatePolygonArea [(0, 0), (4, 0), (0, 3)] = 6 * (111.32 * 111.32)
   \<and> length [(1, 2), (3, 4 :: real)] < 3
   \<and> calculatePolygonArea [(1, 2), (3, 4)] = 0"
proof -
  have s: "shoelace_sum [(0, 0), (4, 0), (0, 3)] = 12"
    by (simp add: shoelace_sum_def lessThan_nat_numeral lessThan_Suc)
  from calculatePolygonArea_shoelace [of "[(0, 0), (4, 0), (0, 3)]"]
    calculatePolygonArea_shoelace [of "[(1, 2), (3, 4)]"] s
  show ?thesis by simp
qed

subsection \<open>Point in polygon\<close>




















section \<open>Properties of the colour rules\<close>

lemma find_first_match:
  "xs = pre @ c # post \<Longrightarrow> \<forall>d\<in>set pre. \<not> P d \<Longrightarrow> P c \<Longrightarrow> find P xs = Some c"
  by (induction pre arbitrary: xs) auto

lemma find_no_match: "\<forall>d\<in>set xs. \<not> P d \<Longrightarrow> find P xs = None"
  by (simp add: find_None_iff)

text \<open>
  The first condition whose interval holds the value \<open>5\<close> has the empty colour; the function
  returns the default colour, not that condition's colour.  So claim C1 as stated fails
  there.
\<close>

theorem getPolygonColor_empty_color:
  "in_condition (Number 5) blank_condition
   \<and> find (in_condition (Number 5)) (conditions blank_rule) = Some blank_condition
   \<and> getPolygonColor [blank_rule] Temperature (polygon_with (Number 5)) = ''#gray-400''
   \<and> getPolygonColor [blank_rule] Temperature (polygon_with (Number 5)) \<noteq> color blank_condition"
  by (simp add: getPolygonColor_def currentRule_def blank_rule_def blank_condition_def
      polygon_with_def in_condition_def typeof_number_def gray_400_def)

text \<open>
  Claim C1, as amended.  With weather data and a rule for the selected source, a numeric
  value gets the colour of the first condition, in list order, with \<open>min \<le> value < max\<close>
  when that colour is not the empty string, and the default colour when it is empty or
  when no condition holds the value; a value that is not a number, or is \<^verbatim>\<open>NaN\<close>, gets the default colour.
  For the conditions \<open>[{0,10,blue},{10,20,red}]\<close>, \<open>10\<close> gives red, \<open>9.999\<close> gives blue and
  \<open>25\<close> gives the default.
\<close>

theorem getPolygonColor_first_match:
  "(weatherData polygon = Some wd \<and> currentRule rules src = Some rule \<longrightarrow>
      (wd src = Number x \<and> conditions rule = pre @ c # post \<and>
         (\<forall>d\<in>set pre. \<not> (cond_min d \<le> x \<and> x < cond_max d)) \<and>
         cond_min c \<le> x \<and> x < cond_max c
         \<longrightarrow> getPolygonColor rules src polygon
               = (if color c = [] then ''#gray-400'' else color c))
      \<and> (wd src = Number x \<and> (\<forall>d\<in>set (conditions rule). \<not> (cond_min d \<le> x \<and> x < cond_max d))
         \<longrightarrow> getPolygonColor rules src polygon = ''#gray-400'')
      \<and> (\<not> typeof_number (wd src) \<or> wd src = NaN
         \<longrightarrow> getPolygonColor rules src polygon = ''#gray-400''))
   \<and> getPolygonColor [blue_red_rule] Temperature (polygon_with (Number 10)) = ''red''
   \<and> getPolygonColor [blue_red_rule] Temperature (polygon_with (Number 9.999)) = ''blue''
   \<and> getPolygonColor [blue_red_rule] Temperature (polygon_with (Number 25)) = ''#gray-400''
   \<and> getPolygonColor [blue_red_rule] Temperature (polygon_with (Str ''n/a'')) = ''#gray-400''
   \<and> getPolygonColor [blue_red_rule] Temperature (polygon_with Undefined) = ''#gray-400''"
proof -
  have first: "getPolygonColor rules src polygon
                 = (if color c = [] then ''#gray-400'' else color c)"
    if "weatherData polygon = Some wd" "currentRule rules src = Some rule"
      "wd src = Number x" "conditions rule = pre @ c # post"
      "\<forall>d\<in>set pre. \<not> (cond_min d \<le> x \<and> x < cond_max d)"
      "cond_min c \<le> x" "x < cond_max c"
  proof -
    have "find (in_condition (Number x)) (conditions rule) = Some c"
      using that(4-7) by (intro find_first_match [of _ pre c post]) (simp_all add: in_condition_def)
    with that(1-3) show ?thesis
      by (simp add: getPolygonColor_def typeof_number_def gray_400_def)
  qed
  have none: "getPolygonColor rules src polygon = ''#gray-400''"
    if "weatherData polygon = Some wd" "currentRule rules src = Some rule"
      "wd src = Number x"
      "\<forall>d\<in>set (conditions rule). \<not> (cond_min d \<le> x \<and> x < cond_max d)"
  proof -
    have "find (in_condition (Number x)) (conditions rule) = None"
      using that(4) by (intro find_no_match) (simp add: in_condition_def)
    with that(1-3) show ?thesis
      by (simp add: getPolygonColor_def typeof_number_def gray_400_def)
  qed
  have other: "getPolygonColor rules src polygon = ''#gray-400''"
    if "weatherData polygon = Some wd" "currentRule rules src = Some rule"
      "\<not> typeof_number (wd src) \<or> wd src = NaN"
  proof -
    have "find (in_condition NaN) (conditions rule) = None"
      by (intro find_no_match) (simp add: in_condition_def)
    with that show ?thesis
      by (auto simp: getPolygonColor_def gray_400_def)
  qed
  have ex: "getPolygonColor [blue_red_rule] Temperature (polygon_with (Number 10)) = ''red''"
    "getPolygonColor [blue_red_rule] Temperature (polygon_with (Number 9.999)) = ''blue''"
    "getPolygonColor [blue_red_rule] Temperature (polygon_with (Number 25)) = ''#gray-400''"
    "getPolygonColor [blue_red_rule] Temperature (polygon_with (Str ''n/a'')) = ''#gray-400''"
    "getPolygonColor [blue_red_rule] Temperature (polygon_with Undefined) = ''#gray-400''"
    by (simp_all add: getPolygonColor_def currentRule_def blue_red_rule_def polygon_with_def
        in_condition_def typeof_number_def gray_400_def)
  from first none other ex show ?thesis
    by blast
qed

theorem getPolygonColor_first_match_witness:
  "weatherData (polygon_with (Number 12)) = Some (\<lambda>k. Number 12)
   \<and> currentRule [blue_red_rule] Temperature = Some blue_red_rule
   \<and> getPolygonColor [blue_red_rule] Temperature (polygon_with (Number 12)) = ''red''
   \<and> getPolygonColor [blue_red_rule] Temperature (polygon_with (Number (- 3))) = ''#gray-400''
   \<and> getPolygonColor [blue_red_rule] Temperature (polygon_with NaN) = ''#gray-400''"
proof -
  let ?lo = "\<lparr>cond_min = 0, cond_max = 10, color = ''blue'', label = ''low''\<rparr>"
  let ?hi = "\<lparr>cond_min = 10, cond_max = 20, color = ''red'', label = ''high''\<rparr>"
  have w: "weatherData (polygon_with v) = Some (\<lambda>k. v)" for v
    by (simp add: polygon_with_def)
  have r: "currentRule [blue_red_rule] Temperature = Some blue_red_rule"
    by (simp add: currentRule_def blue_red_rule_def)
  have c: "conditions blue_red_rule = [?lo] @ ?hi # []"
    by (simp add: blue_red_rule_def)
  from getPolygonColor_first_match
    [of "polygon_with (Number 12)" "\<lambda>k. Number 12" "[blue_red_rule]" Temperature
      blue_red_rule 12 "[?lo]" ?hi "[]"] w r c
  have a: "getPolygonColor [blue_red_rule] Temperature (polygon_with (Number 12)) = ''red''"
    by simp
  from getPolygonColor_first_match
    [of "polygon_with (Number (- 3))" "\<lambda>k. Number (- 3)" "[blue_red_rule]" Temperature
      blue_red_rule "- 3" "[]" ?lo "[?hi]"] w r
  have b: "getPolygonColor [blue_red_rule] Temperature (polygon_with (Number (- 3))) = ''#gray-400''"
    by (simp add: blue_red_rule_def)
  from getPolygonColor_first_match
    [of "polygon_with NaN" "\<lambda>k. NaN" "[blue_red_rule]" Temperature blue_red_rule] w r
  have d: "getPolygonColor [blue_red_rule] Temperature (polygon_with NaN) = ''#gray-400''"
    by simp
  from w r a b d show ?thesis by simp
qed


section \<open>Properties of the weather client\<close>

text \<open>Numbers that are binary64 numbers, and the rounding of the ends of the ranges.\<close>

lemma is_double_0: "is_double 0"
  by (simp add: is_double_def max_double_def)

lemma is_double_half: "is_double (1 / 2)"
proof -
  have "round64 (1 / 2) = 1 / 2"
    by (rule round64_exact [where e = "- 1" and k = "2 ^ 52"]) simp_all
  moreover have "\<bar>1 / 2 :: real\<bar> \<le> max_double"
    by (intro max_double_large) simp
  ultimately show ?thesis by (simp add: is_double_def)
qed

lemma is_double_quarter: "is_double (1 / 4)"
proof -
  have "round64 (1 / 4) = 1 / 4"
    by (rule round64_exact [where e = "- 2" and k = "2 ^ 52"]) simp_all
  moreover have "\<bar>1 / 4 :: real\<bar> \<le> max_double"
    by (intro max_double_large) simp
  ultimately show ?thesis by (simp add: is_double_def)
qed

lemma is_double_below_one: "is_double (1 - 2 powi (- 52))"
proof -
  have "round64 (1 - 2 powi (- 52)) = 1 - 2 powi (- 52)"
    by (rule round64_exact [where e = "- 1" and k = "2 ^ 53 - 2"]) simp_all
  moreover have "\<bar>1 - 2 powi (- 52) :: real\<bar> \<le> max_double"
    by (intro max_double_large) simp
  ultimately show ?thesis by (simp add: is_double_def)
qed

text \<open>The largest binary64 number below \<open>1\<close> is \<open>1 - 2\<^sup>-\<^sup>5\<^sup>3\<close>.\<close>

lemma is_double_less_one:
  assumes "is_double r" "r < 1"
  shows "r \<le> 1 - 2 powi (- 53)"
proof (cases "r < 1 / 2")
  case True
  then show ?thesis by simp
next
  case False
  with assms(2) have b: "2 powi (- 1) \<le> \<bar>r\<bar>" "\<bar>r\<bar> < 2 powi (- 1 + 1)"
    by simp_all
  define k where "k = rne (r / 2 powi (- 1 - 52))"
  from assms(1) have "r = round64 r" by (simp add: is_double_def)
  also have "\<dots> = of_int k * 2 powi (- 1 - 52)"
    unfolding k_def by (rule round64_eval [OF b]) simp
  finally have r: "r = of_int k / 2 ^ 53" by simp
  with assms(2) have "(of_int k :: real) < 2 ^ 53" by (simp add: field_simps)
  then have "(of_int k :: real) < of_int (2 ^ 53)" by simp
  then have "k < 2 ^ 53" by (simp only: of_int_less_iff)
  then have "k \<le> 2 ^ 53 - 1" by simp
  then have "(of_int k :: real) \<le> of_int (2 ^ 53 - 1)" by (simp only: of_int_le_iff)
  then have "(of_int k :: real) \<le> 2 ^ 53 - 1" by simp
  then have "of_int k / 2 ^ 53 \<le> ((2 ^ 53 - 1) / 2 ^ 53 :: real)"
    by (intro divide_right_mono) simp_all
  then show ?thesis unfolding r by simp
qed

lemma round64_10: "round64 10 = 10"
  by (rule round64_exact [where e = 3 and k = "10 * 2 ^ 49"]) simp_all

lemma round64_15: "round64 15 = 15"
  by (rule round64_exact [where e = 3 and k = "15 * 2 ^ 49"]) simp_all

lemma round64_20: "round64 20 = 20"
  by (rule round64_exact [where e = 4 and k = "20 * 2 ^ 48"]) simp_all

lemma round64_30: "round64 30 = 30"
  by (rule round64_exact [where e = 4 and k = "30 * 2 ^ 48"]) simp_all

lemma round64_35: "round64 35 = 35"
  by (rule round64_exact [where e = 5 and k = "35 * 2 ^ 47"]) simp_all

lemma round64_40: "round64 40 = 40"
  by (rule round64_exact [where e = 5 and k = "40 * 2 ^ 47"]) simp_all

lemma round64_80: "round64 80 = 80"
  by (rule round64_exact [where e = 6 and k = "80 * 2 ^ 46"]) simp_all

lemma round64_top_30: "round64 ((1 - 2 powi (- 53)) * 30) = 30 - 2 powi (- 48)"
proof -
  have "round64 ((1 - 2 powi (- 53)) * 30)
      = of_int (rne ((1 - 2 powi (- 53)) * 30 / 2 powi (4 - 52))) * 2 powi (4 - 52)"
    by (rule round64_eval) simp_all
  also have "rne ((1 - 2 powi (- 53)) * 30 / 2 powi (4 - 52)) = 30 * 2 ^ 48 - 1"
    by (simp add: rne_def Let_def)
  finally show ?thesis by simp
qed

lemma round64_top_10: "round64 ((1 - 2 powi (- 53)) * 10) = 10 - 2 powi (- 49)"
proof -
  have "round64 ((1 - 2 powi (- 53)) * 10)
      = of_int (rne ((1 - 2 powi (- 53)) * 10 / 2 powi (3 - 52))) * 2 powi (3 - 52)"
    by (rule round64_eval) simp_all
  also have "rne ((1 - 2 powi (- 53)) * 10 / 2 powi (3 - 52)) = 10 * 2 ^ 49 - 1"
    by (simp add: rne_def Let_def)
  finally show ?thesis by simp
qed

text \<open>
  The product of a result of \<^verbatim>\<open>Math.random()\<close> and a constant \<open>c\<close>, and the sum of a
  constant and such a product, between the values at the two ends.
\<close>

lemma random_product:
  assumes "random_number a" "0 \<le> c" "c \<le> 2 ^ 10" "round64 c = c"
    and "round64 ((1 - 2 powi (- 53)) * c) = t"
  shows "\<exists>p. fmul a (Finite c) = Finite p \<and> 0 \<le> p \<and> p \<le> t \<and> p \<le> c"
proof -
  from assms(1) obtain r where a: "a = Finite r" and r: "is_double r" "0 \<le> r" "r < 1"
    by (cases a) simp_all
  from is_double_less_one [OF r(1,3)] have top: "r \<le> 1 - 2 powi (- 53)" .
  from r assms(2) have "0 \<le> r * c" "r * c \<le> c"
    by (simp_all add: mult_left_le_one_le)
  then have "\<bar>r * c\<bar> \<le> c" by simp
  moreover from assms(3,4) have "round64 c \<le> 2 ^ 64"
  proof -
    have "(2::real) ^ 10 \<le> 2 ^ 64" by (intro power_increasing) simp_all
    with assms(3,4) show ?thesis by simp
  qed
  ultimately have f: "to_double (r * c) = Finite (round64 (r * c))"
    by (rule to_double_finite)
  have "0 \<le> round64 (r * c)"
    using \<open>0 \<le> r * c\<close> by (rule round64_nonneg)
  moreover from top assms(2) have "r * c \<le> (1 - 2 powi (- 53)) * c"
    by (intro mult_right_mono)
  then have "round64 (r * c) \<le> round64 ((1 - 2 powi (- 53)) * c)"
    by (rule round64_mono)
  moreover from \<open>r * c \<le> c\<close> have "round64 (r * c) \<le> round64 c"
    by (rule round64_mono)
  ultimately show ?thesis
    using f by (simp add: a assms(4) assms(5) [symmetric])
qed

lemma constant_plus:
  assumes "0 \<le> p" "p \<le> c" "0 \<le> b" "b + c \<le> 2 ^ 10" "round64 b = b"
    "round64 (b + c) = b + c"
  shows "\<exists>s. fadd (Finite b) (Finite p) = Finite s \<and> b \<le> s \<and> s \<le> b + c"
proof -
  from assms have "\<bar>b + p\<bar> \<le> b + c" by simp
  moreover have "round64 (b + c) \<le> 2 ^ 64"
  proof -
    have "(2::real) ^ 10 \<le> 2 ^ 64" by (intro power_increasing) simp_all
    with assms(4,6) show ?thesis by simp
  qed
  ultimately have f: "to_double (b + p) = Finite (round64 (b + p))"
    by (rule to_double_finite)
  from assms(1) have "b \<le> b + p" by simp
  then have "round64 b \<le> round64 (b + p)" by (rule round64_mono)
  moreover from assms(2) have "b + p \<le> b + c" by simp
  then have "round64 (b + p) \<le> round64 (b + c)" by (rule round64_mono)
  ultimately show ?thesis
    using f by (simp add: assms(5,6))
qed

lemma mockData_synthesized:
  assumes "random_number r1" "random_number r2" "random_number r3" "random_number r4"
  shows "synthesized (mockData (r1, r2, r3, r4))"
proof -
  have c: "(0::real) \<le> 20" "(20::real) \<le> 2 ^ 10" "(0::real) \<le> 40" "(40::real) \<le> 2 ^ 10"
    "(0::real) \<le> 30" "(30::real) \<le> 2 ^ 10" "(0::real) \<le> 10" "(10::real) \<le> 2 ^ 10"
    "(0::real) \<le> 15" "(15::real) + 20 \<le> 2 ^ 10" "(40::real) + 40 \<le> 2 ^ 10"
    by simp_all
  have e: "round64 (15 + 20) = 15 + 20" "round64 (40 + 40) = 40 + 40"
    by (simp_all add: round64_35 round64_80)
  from random_product [OF assms(1) c(1,2) round64_20 refl] obtain p1
    where p1: "fmul r1 (Finite 20) = Finite p1" "0 \<le> p1" "p1 \<le> 20"
    by blast
  from constant_plus [OF p1(2,3) c(9,10) round64_15 e(1)] obtain s1
    where s1: "fadd (Finite 15) (Finite p1) = Finite s1" "15 \<le> s1" "s1 \<le> 15 + 20"
    by blast
  from random_product [OF assms(2) c(3,4) round64_40 refl] obtain p2
    where p2: "fmul r2 (Finite 40) = Finite p2" "0 \<le> p2" "p2 \<le> 40"
    by blast
  from constant_plus [OF p2(2,3) c(3) c(11) round64_40 e(2)] obtain s2
    where s2: "fadd (Finite 40) (Finite p2) = Finite s2" "40 \<le> s2" "s2 \<le> 40 + 40"
    by blast
  from random_product [OF assms(3) c(5,6) round64_30 round64_top_30] obtain p3
    where p3: "fmul r3 (Finite 30) = Finite p3" "0 \<le> p3" "p3 \<le> 30 - 2 powi (- 48)"
    by blast
  from random_product [OF assms(4) c(7,8) round64_10 round64_top_10] obtain p4
    where p4: "fmul r4 (Finite 10) = Finite p4" "0 \<le> p4" "p4 \<le> 10 - 2 powi (- 49)"
    by blast
  from p3(3) have "p3 < 30" by simp
  moreover from p4(3) have "p4 < 10" by simp
  ultimately show ?thesis
    using p1 s1 p2 s2 p3 p4 by (simp add: synthesized_def mockData_def)
qed

lemma try_block_invalid_time:
  "toISOString pf startTime = None \<or> toISOString pf endTime = None \<Longrightarrow>
     \<exists>err. try_block pf lat lng startTime endTime = Inl err"
  by (auto simp: try_block_def split: option.splits)

lemma try_block_request_failed:
  assumes "toISOString pf startTime = Some iso_start" "toISOString pf endTime = Some iso_end"
    and "request_failed pf \<lparr>latitude = lat, longitude = lng, start_date = split_T iso_start,
            end_date = split_T iso_end\<rparr> startTime endTime iso_start"
  shows "\<exists>err. try_block pf lat lng startTime endTime = Inl err"
  using assms
  by (auto simp: try_block_def request_failed_def Let_def
      split: response.splits body.splits option.splits)

lemma fetchWeatherData_caught:
  "try_block pf lat lng startTime endTime = Inl err \<Longrightarrow>
     fetchWeatherData pf rnd lat lng startTime endTime = mockData rnd"
  by (simp add: fetchWeatherData_def)

lemma findIndex_absent: "x \<notin> set xs \<Longrightarrow> findIndex (\<lambda>t. t = x) xs = - 1"
  by (induction xs) (auto simp: Let_def)

lemma findIndex_range: "findIndex p xs = - 1 \<or> (0 \<le> findIndex p xs \<and> findIndex p xs < int (length xs))"
  by (induction xs) (auto simp: Let_def)

lemma findIndex_present: "x \<in> set xs \<Longrightarrow> findIndex (\<lambda>t. t = x) xs \<noteq> - 1"
proof (induction xs)
  case Nil
  then show ?case by simp
next
  case (Cons y ys)
  then show ?case
    using findIndex_range [of "\<lambda>t. t = x" ys] by (auto simp: Let_def)
qed

text \<open>
  The ranges of claim C2 leave out the upper ends, and the temperature and the humidity
  reach them: for the result \<open>1 - 2\<^sup>-\<^sup>5\<^sup>2\<close> of \<^verbatim>\<open>Math.random()\<close>, the product with \<open>20\<close> rounds
  to \<open>20 - 2\<^sup>-\<^sup>4\<^sup>8\<close> and its sum with \<open>15\<close>, half way between two binary64 numbers, rounds to
  \<open>35\<close>; in the same way the humidity is \<open>80\<close>.
\<close>

theorem mockData_reaches_upper_end:
  "random_number (Finite (1 - 2 powi (- 52)))
   \<and> temperature (fetchWeatherData (sample_platform NetworkError)
        (Finite (1 - 2 powi (- 52)), Finite (1 - 2 powi (- 52)), Finite 0, Finite 0) 1 2 0 0)
       = Finite 35
   \<and> humidity (fetchWeatherData (sample_platform NetworkError)
        (Finite (1 - 2 powi (- 52)), Finite (1 - 2 powi (- 52)), Finite 0, Finite 0) 1 2 0 0)
       = Finite 80
   \<and> \<not> in_half_open 15 35 (Finite 35)
   \<and> \<not> in_half_open 40 80 (Finite 80)"
proof -
  have m: "\<bar>x\<bar> \<le> 2 ^ 10 \<Longrightarrow> \<bar>x\<bar> \<le> max_double" for x
    by (intro max_double_large) (simp add: order_trans [of _ "2 ^ 10"])
  have "round64 ((1 - 2 powi (- 52)) * 20)
      = of_int (rne ((1 - 2 powi (- 52)) * 20 / 2 powi (4 - 52))) * 2 powi (4 - 52)"
    by (rule round64_eval) simp_all
  also have "rne ((1 - 2 powi (- 52)) * 20 / 2 powi (4 - 52)) = 20 * 2 ^ 48 - 1"
    by (simp add: rne_def Let_def)
  finally have p1: "round64 ((1 - 2 powi (- 52)) * 20) = 20 - 2 powi (- 48)" by simp
  have "round64 (15 + (20 - 2 powi (- 48)))
      = of_int (rne ((15 + (20 - 2 powi (- 48))) / 2 powi (5 - 52))) * 2 powi (5 - 52)"
    by (rule round64_eval) simp_all
  also have "rne ((15 + (20 - 2 powi (- 48))) / 2 powi (5 - 52)) = 35 * 2 ^ 47"
    by (simp add: rne_def Let_def)
  finally have s1: "round64 (15 + (20 - 2 powi (- 48))) = 35" by simp
  have "round64 ((1 - 2 powi (- 52)) * 40)
      = of_int (rne ((1 - 2 powi (- 52)) * 40 / 2 powi (5 - 52))) * 2 powi (5 - 52)"
    by (rule round64_eval) simp_all
  also have "rne ((1 - 2 powi (- 52)) * 40 / 2 powi (5 - 52)) = 40 * 2 ^ 47 - 1"
    by (simp add: rne_def Let_def)
  finally have p2: "round64 ((1 - 2 powi (- 52)) * 40) = 40 - 2 powi (- 47)" by simp
  have "round64 (40 + (40 - 2 powi (- 47)))
      = of_int (rne ((40 + (40 - 2 powi (- 47))) / 2 powi (6 - 52))) * 2 powi (6 - 52)"
    by (rule round64_eval) simp_all
  also have "rne ((40 + (40 - 2 powi (- 47))) / 2 powi (6 - 52)) = 80 * 2 ^ 46"
    by (simp add: rne_def Let_def)
  finally have s2: "round64 (40 + (40 - 2 powi (- 47))) = 80" by simp
  have fin: "to_double x = Finite (round64 x)" if "\<bar>x\<bar> \<le> 80" for x
    using that by (rule to_double_finite) (simp add: round64_80)
  have "fmul (Finite (1 - 2 powi (- 52))) (Finite 20) = Finite (20 - 2 powi (- 48))"
    unfolding fmul.simps p1 [symmetric] by (rule fin) simp
  then have "fadd (Finite 15) (fmul (Finite (1 - 2 powi (- 52))) (Finite 20))
      = to_double (15 + (20 - 2 powi (- 48)))"
    by (simp only: fadd.simps)
  also have "\<dots> = Finite 35"
    unfolding s1 [symmetric] by (rule fin) simp
  finally have t: "fadd (Finite 15) (fmul (Finite (1 - 2 powi (- 52))) (Finite 20)) = Finite 35" .
  have "fmul (Finite (1 - 2 powi (- 52))) (Finite 40) = Finite (40 - 2 powi (- 47))"
    unfolding fmul.simps p2 [symmetric] by (rule fin) simp
  then have "fadd (Finite 40) (fmul (Finite (1 - 2 powi (- 52))) (Finite 40))
      = to_double (40 + (40 - 2 powi (- 47)))"
    by (simp only: fadd.simps)
  also have "\<dots> = Finite 80"
    unfolding s2 [symmetric] by (rule fin) simp
  finally have h: "fadd (Finite 40) (fmul (Finite (1 - 2 powi (- 52))) (Finite 40)) = Finite 80" .
  have f: "fetchWeatherData (sample_platform NetworkError) rnd 1 2 0 0 = mockData rnd" for rnd
    by (simp add: fetchWeatherData_def try_block_def sample_platform_def)
  have "temperature (mockData (Finite (1 - 2 powi (- 52)), Finite (1 - 2 powi (- 52)), c, d))
        = Finite 35"
    "humidity (mockData (Finite (1 - 2 powi (- 52)), Finite (1 - 2 powi (- 52)), c, d))
        = Finite 80" for c d
    by (simp_all only: mockData_def Let_def prod.case WeatherData.simps t h)
  moreover have "random_number (Finite (1 - 2 powi (- 52)))"
    unfolding random_number.simps by (intro conjI is_double_below_one) simp_all
  moreover have "\<not> in_half_open 15 35 (Finite 35)" "\<not> in_half_open 40 80 (Finite 80)"
    by simp_all
  ultimately show ?thesis
    unfolding f by (intro conjI)
qed

text \<open>
  Claim C2, as amended.  \<open>fetchWeatherData\<close> returns a value on every input: whatever is
  thrown in the \<^verbatim>\<open>try\<close> block is caught and the synthesized metrics are returned.  With
  the four random numbers binary64 numbers in \<open>[0, 1)\<close>, after an invalid time, a network
  error, a response that is not a success, an unreadable body, missing hourly data, a
  missing array of times or of readings, or an empty set of selected indices, the
  temperature is in \<open>[15, 35]\<close>, the humidity in \<open>[40, 80]\<close>, the wind speed in \<open>[0, 30)\<close> and
  the precipitation in \<open>[0, 10)\<close>.  In single-instant mode no index is selected when no
  hourly time string equals the truncated hour.
\<close>

theorem fetchWeatherData_fallback:
  assumes "random_number r1" "random_number r2" "random_number r3" "random_number r4"
  shows "(try_block pf lat lng startTime endTime = Inl err \<longrightarrow>
            fetchWeatherData pf (r1, r2, r3, r4) lat lng startTime endTime
              = mockData (r1, r2, r3, r4))
     \<and> synthesized (mockData (r1, r2, r3, r4))
     \<and> (toISOString pf startTime = None \<or> toISOString pf endTime = None \<longrightarrow>
            synthesized (fetchWeatherData pf (r1, r2, r3, r4) lat lng startTime endTime))
     \<and> (toISOString pf startTime = Some iso_start \<and> toISOString pf endTime = Some iso_end \<and>
          request_failed pf \<lparr>latitude = lat, longitude = lng, start_date = split_T iso_start,
            end_date = split_T iso_end\<rparr> startTime endTime iso_start \<longrightarrow>
            synthesized (fetchWeatherData pf (r1, r2, r3, r4) lat lng startTime endTime))
     \<and> (take 13 iso_start @ '':00'' \<notin> set hourly_time \<longrightarrow>
            timeIndices pf hourly_time startTime startTime iso_start = [])"
proof (intro conjI impI)
  show syn: "synthesized (mockData (r1, r2, r3, r4))"
    by (rule mockData_synthesized [OF assms])
  show "fetchWeatherData pf (r1, r2, r3, r4) lat lng startTime endTime = mockData (r1, r2, r3, r4)"
    if "try_block pf lat lng startTime endTime = Inl err"
    using that by (rule fetchWeatherData_caught)
  show "synthesized (fetchWeatherData pf (r1, r2, r3, r4) lat lng startTime endTime)"
    if "toISOString pf startTime = None \<or> toISOString pf endTime = None"
    using try_block_invalid_time [OF that, of lat lng] syn
    by (auto simp: fetchWeatherData_caught)
  show "synthesized (fetchWeatherData pf (r1, r2, r3, r4) lat lng startTime endTime)"
    if "toISOString pf startTime = Some iso_start \<and> toISOString pf endTime = Some iso_end \<and>
          request_failed pf \<lparr>latitude = lat, longitude = lng, start_date = split_T iso_start,
            end_date = split_T iso_end\<rparr> startTime endTime iso_start"
    using try_block_request_failed [of pf startTime iso_start endTime iso_end lat lng] that syn
    by (auto simp: fetchWeatherData_caught)
  show "timeIndices pf hourly_time startTime startTime iso_start = []"
    if "take 13 iso_start @ '':00'' \<notin> set hourly_time"
    using findIndex_absent [OF that] by (simp add: timeIndices_def)
qed

lemma sample_indices:
  "timeIndices (sample_platform x) (time sample_hourly) 0 7200000 i = [0, 1, 2]"
  by (simp add: timeIndices_def sample_hourly_def sample_platform_def in_time_range_def upt_rec)

theorem fetchWeatherData_fallback_witness:
  "synthesized (fetchWeatherData (sample_platform NetworkError)
      (Finite 0, Finite (1 / 2), Finite (1 / 4), Finite 0) 1 2 0 0)
   \<and> synthesized (fetchWeatherData (sample_platform (Response False BadBody))
      (Finite 0, Finite (1 / 2), Finite (1 / 4), Finite 0) 1 2 0 0)
   \<and> synthesized (fetchWeatherData (sample_platform (Response True (Data None)))
      (Finite 0, Finite (1 / 2), Finite (1 / 4), Finite 0) 1 2 0 0)
   \<and> synthesized (fetchWeatherData (sample_platform NetworkError)
      (Finite 0, Finite (1 / 2), Finite (1 / 4), Finite 0) 1 2 5 5)
   \<and> synthesized (fetchWeatherData
      (sample_platform (Response True (Data (Some (all_members sample_hourly)))))
      (Finite 0, Finite (1 / 2), Finite (1 / 4), Finite 0) 1 2 86400000 86400000)
   \<and> synthesized (fetchWeatherData
      (sample_platform (Response True (Data (Some no_precipitation))))
      (Finite 0, Finite (1 / 2), Finite (1 / 4), Finite 0) 1 2 0 7200000)
   \<and> timeIndices (sample_platform NetworkError) (time sample_hourly) 86400000 86400000
         ''1970-01-02T00:00:00.000Z'' = []"
proof -
  have r: "random_number (Finite 0)" "random_number (Finite (1 / 2))"
    "random_number (Finite (1 / 4))"
    by (simp_all add: is_double_0 is_double_half is_double_quarter)
  note t = fetchWeatherData_fallback [OF r(1) r(2) r(3) r(1)]
  have iso: "toISOString (sample_platform x) 0 = Some ''1970-01-01T00:00:00.000Z''"
    "toISOString (sample_platform x) 86400000 = Some ''1970-01-02T00:00:00.000Z''"
    "toISOString (sample_platform x) 7200000 = Some ''1970-01-01T02:00:00.000Z''"
    "toISOString (sample_platform x) 5 = None" for x
    by (simp_all add: sample_platform_def)
  have absent: "take 13 ''1970-01-02T00:00:00.000Z'' @ '':00'' \<notin> set (time sample_hourly)"
    by (simp add: sample_hourly_def)
  from t [where hourly_time = "time sample_hourly" and iso_start = "''1970-01-02T00:00:00.000Z''"] absent
  have e: "timeIndices pf (time sample_hourly) s s ''1970-01-02T00:00:00.000Z'' = []" for pf s
    by blast
  have f1: "request_failed (sample_platform NetworkError) req 0 0 i" for req i
    by (simp add: request_failed_def sample_platform_def)
  have f2: "request_failed (sample_platform (Response False BadBody)) req 0 0 i" for req i
    by (simp add: request_failed_def sample_platform_def)
  have f3: "request_failed (sample_platform (Response True (Data None))) req 0 0 i" for req i
    by (simp add: request_failed_def sample_platform_def)
  have f4: "request_failed (sample_platform (Response True (Data (Some (all_members sample_hourly)))))
      req 86400000 86400000 ''1970-01-02T00:00:00.000Z''" for req
    by (simp add: request_failed_def sample_platform_def all_members_def e)
  have f5: "request_failed (sample_platform (Response True (Data (Some no_precipitation))))
      req 0 7200000 ''1970-01-01T00:00:00.000Z''" for req
    by (simp add: request_failed_def sample_platform_def all_members_def no_precipitation_def)
  from t [where pf = "sample_platform NetworkError" and startTime = 0 and endTime = 0
      and iso_start = "''1970-01-01T00:00:00.000Z''" and iso_end = "''1970-01-01T00:00:00.000Z''"
      and lat = 1 and lng = 2] iso f1
  have a: "synthesized (fetchWeatherData (sample_platform NetworkError)
      (Finite 0, Finite (1 / 2), Finite (1 / 4), Finite 0) 1 2 0 0)"
    by blast
  from t [where pf = "sample_platform (Response False BadBody)" and startTime = 0 and endTime = 0
      and iso_start = "''1970-01-01T00:00:00.000Z''" and iso_end = "''1970-01-01T00:00:00.000Z''"
      and lat = 1 and lng = 2] iso f2
  have b: "synthesized (fetchWeatherData (sample_platform (Response False BadBody))
      (Finite 0, Finite (1 / 2), Finite (1 / 4), Finite 0) 1 2 0 0)"
    by blast
  from t [where pf = "sample_platform (Response True (Data None))" and startTime = 0
      and endTime = 0 and iso_start = "''1970-01-01T00:00:00.000Z''"
      and iso_end = "''1970-01-01T00:00:00.000Z''" and lat = 1 and lng = 2] iso f3
  have c: "synthesized (fetchWeatherData (sample_platform (Response True (Data None)))
      (Finite 0, Finite (1 / 2), Finite (1 / 4), Finite 0) 1 2 0 0)"
    by blast
  from t [where pf = "sample_platform NetworkError" and startTime = 5 and endTime = 5
      and lat = 1 and lng = 2] iso
  have d: "synthesized (fetchWeatherData (sample_platform NetworkError)
      (Finite 0, Finite (1 / 2), Finite (1 / 4), Finite 0) 1 2 5 5)"
    by blast
  from t [where pf = "sample_platform (Response True (Data (Some (all_members sample_hourly))))"
      and startTime = 86400000 and endTime = 86400000
      and iso_start = "''1970-01-02T00:00:00.000Z''" and iso_end = "''1970-01-02T00:00:00.000Z''"
      and lat = 1 and lng = 2] iso f4
  have g: "synthesized (fetchWeatherData
      (sample_platform (Response True (Data (Some (all_members sample_hourly)))))
      (Finite 0, Finite (1 / 2), Finite (1 / 4), Finite 0) 1 2 86400000 86400000)"
    by blast
  from t [where pf = "sample_platform (Response True (Data (Some no_precipitation)))"
      and startTime = 0 and endTime = 7200000
      and iso_start = "''1970-01-01T00:00:00.000Z''" and iso_end = "''1970-01-01T02:00:00.000Z''"
      and lat = 1 and lng = 2] iso f5
  have h: "synthesized (fetchWeatherData
      (sample_platform (Response True (Data (Some no_precipitation))))
      (Finite 0, Finite (1 / 2), Finite (1 / 4), Finite 0) 1 2 0 7200000)"
    by blast
  from a b c d g h e show ?thesis by blast
qed

text \<open>The sum of the code and the sum of the specification.\<close>

lemma fold_foldl:
  "fold (\<lambda>i sum. fadd sum (reading arr i)) indices z = foldl fadd z (map (reading arr) indices)"
  by (induction indices arbitrary: z) simp_all

lemma reading_zero_filled: "parsed_reading (element arr i) \<Longrightarrow> reading arr i = zero_filled arr i"
  by (cases "element arr i" rule: or_zero.cases)
    (simp_all add: reading_def zero_filled_def parsed_reading_def)

lemma average_mean:
  assumes "\<forall>i\<in>set indices. parsed_reading (element arr i)"
  shows "average arr indices = mean_zero_filled arr indices"
proof -
  from assms have e: "map (reading arr) indices = map (zero_filled arr) indices"
    by (simp add: reading_zero_filled)
  show ?thesis
    unfolding average_def mean_zero_filled_def fold_foldl e ..
qed

lemma bounded_zero_filled:
  assumes "bounded_reading b (element arr i)" "0 \<le> b"
  shows "\<exists>x. zero_filled arr i = Finite x \<and> \<bar>x\<bar> \<le> b \<and> real_of (zero_filled arr i) = x
     \<and> parsed_reading (element arr i)"
proof (cases "element arr i")
  case None
  with assms(2) show ?thesis by (simp add: zero_filled_def parsed_reading_def)
next
  case (Some a)
  with assms(1) show ?thesis
    by (cases a) (simp_all add: zero_filled_def bounded_reading_def parsed_reading_def)
qed

lemma foldl_fadd_error:
  assumes "\<forall>x\<in>set xs. \<bar>x\<bar> \<le> 1000" "\<bar>a - A\<bar> \<le> real m / 10 ^ 8" "\<bar>A\<bar> \<le> real m * 1000"
    "m + length xs \<le> 1000"
  shows "\<exists>s. foldl fadd (Finite a) (map Finite xs) = Finite s
     \<and> \<bar>s - (A + sum_list xs)\<bar> \<le> real (m + length xs) / 10 ^ 8
     \<and> \<bar>A + sum_list xs\<bar> \<le> real (m + length xs) * 1000"
  using assms
proof (induction xs arbitrary: a A m)
  case Nil
  then show ?case by simp
next
  case (Cons x xs)
  from Cons.prems(1) have x: "\<bar>x\<bar> \<le> 1000" and xs: "\<forall>x\<in>set xs. \<bar>x\<bar> \<le> 1000"
    by simp_all
  from Cons.prems(4) have m: "real m \<le> 999" by simp
  then have "real m * 1000 \<le> 999000" "real m / 10 ^ 8 \<le> 1"
    by simp_all
  with Cons.prems(2,3) have "\<bar>a - A\<bar> \<le> 1" "\<bar>A\<bar> \<le> 999000"
    by linarith+
  with x have "\<bar>a + x\<bar> \<le> 1000001" by linarith
  then have "\<bar>a + x\<bar> \<le> 2 ^ 25"
    by simp
  from to_double_close [OF this] obtain z
    where z: "to_double (a + x) = Finite z" "\<bar>z - (a + x)\<bar> \<le> 1 / 10 ^ 8"
    by blast
  have 1: "\<bar>z - (A + x)\<bar> \<le> real (Suc m) / 10 ^ 8"
  proof -
    have "\<bar>z - (A + x)\<bar> \<le> \<bar>z - (a + x)\<bar> + \<bar>a - A\<bar>" by simp
    also have "\<dots> \<le> 1 / 10 ^ 8 + real m / 10 ^ 8"
      using z(2) Cons.prems(2) by (rule add_mono)
    also have "\<dots> = real (Suc m) / 10 ^ 8" by (simp add: field_simps)
    finally show ?thesis .
  qed
  have 2: "\<bar>A + x\<bar> \<le> real (Suc m) * 1000"
  proof -
    have "\<bar>A + x\<bar> \<le> \<bar>A\<bar> + \<bar>x\<bar>" by simp
    also have "\<dots> \<le> real m * 1000 + 1000"
      using Cons.prems(3) x by (rule add_mono)
    also have "\<dots> = real (Suc m) * 1000" by (simp add: field_simps)
    finally show ?thesis .
  qed
  from Cons.prems(4) have 3: "Suc m + length xs \<le> 1000" by simp
  from Cons.IH [OF xs 1 2 3] obtain s
    where s: "foldl fadd (Finite z) (map Finite xs) = Finite s"
      "\<bar>s - (A + x + sum_list xs)\<bar> \<le> real (Suc m + length xs) / 10 ^ 8"
      "\<bar>A + x + sum_list xs\<bar> \<le> real (Suc m + length xs) * 1000"
    by blast
  have "foldl fadd (Finite a) (map Finite (x # xs)) = Finite s"
    by (simp add: z(1) s(1))
  moreover have "A + sum_list (x # xs) = A + x + sum_list xs" by simp
  moreover have "m + length (x # xs) = Suc m + length xs" by simp
  ultimately show ?case
    using s(2,3) by (simp only:) blast
qed

text \<open>The accuracy of the mean and of its rounding to one decimal place.\<close>

lemma mean_zero_filled_close:
  assumes "\<forall>i\<in>set indices. bounded_reading 1000 (element arr i)"
    "indices \<noteq> []" "length indices \<le> 1000"
  shows "\<exists>d. mean_zero_filled arr indices = Finite d
     \<and> \<bar>d - exact_mean arr indices\<bar> \<le> 2 / 10 ^ 8 \<and> \<bar>exact_mean arr indices\<bar> \<le> 1000"
proof -
  define xs where "xs = map (\<lambda>i. real_of (zero_filled arr i)) indices"
  define n where "n = length indices"
  from assms(2) have n: "0 < n" "1 \<le> real n" by (cases indices; simp add: n_def)+
  have z: "zero_filled arr i = Finite (real_of (zero_filled arr i))
      \<and> \<bar>real_of (zero_filled arr i)\<bar> \<le> 1000" if "i \<in> set indices" for i
    using bounded_zero_filled [of 1000 arr i] assms(1) that by auto
  then have m: "map (zero_filled arr) indices = map Finite xs"
    by (simp add: xs_def)
  from z have b: "\<forall>x\<in>set xs. \<bar>x\<bar> \<le> 1000"
    by (auto simp: xs_def)
  have l: "length xs = n" by (simp add: xs_def n_def)
  from assms(3) have "0 + length xs \<le> 1000" by (simp add: l n_def)
  from foldl_fadd_error [OF b, of 0 0 0, OF _ _ this] obtain s
    where s: "foldl fadd (Finite 0) (map Finite xs) = Finite s"
      "\<bar>s - sum_list xs\<bar> \<le> real n / 10 ^ 8" "\<bar>sum_list xs\<bar> \<le> real n * 1000"
    by (auto simp: l)
  have e: "exact_mean arr indices = sum_list xs / real n"
    by (simp add: exact_mean_def xs_def n_def comp_def)
  from s(3) n have em: "\<bar>sum_list xs / real n\<bar> \<le> 1000"
    by (simp add: field_simps)
  have q: "\<bar>s / real n - sum_list xs / real n\<bar> \<le> 1 / 10 ^ 8"
  proof -
    have "\<bar>s / real n - sum_list xs / real n\<bar> = \<bar>s - sum_list xs\<bar> / real n"
      using n by (simp add: diff_divide_distrib [symmetric])
    also have "\<dots> \<le> (real n / 10 ^ 8) / real n"
      using s(2) n by (intro divide_right_mono) simp_all
    also have "\<dots> = 1 / 10 ^ 8" using n by simp
    finally show ?thesis .
  qed
  have "(1::real) / 10 ^ 8 \<le> 1" by simp
  with em q have "\<bar>s / real n\<bar> \<le> 1001" by linarith
  then have "\<bar>s / real n\<bar> \<le> 2 ^ 25" by simp
  from to_double_close [OF this] obtain d
    where d: "to_double (s / real n) = Finite d" "\<bar>d - s / real n\<bar> \<le> 1 / 10 ^ 8"
    by blast
  from n have "mean_zero_filled arr indices = Finite d"
    by (simp add: mean_zero_filled_def m s(1) n_def [symmetric] d(1))
  moreover have "\<bar>d - sum_list xs / real n\<bar> \<le> 2 / 10 ^ 8"
  proof -
    have "\<bar>d - sum_list xs / real n\<bar>
        \<le> \<bar>d - s / real n\<bar> + \<bar>s / real n - sum_list xs / real n\<bar>"
      by simp
    also have "\<dots> \<le> 1 / 10 ^ 8 + 1 / 10 ^ 8"
      using d(2) q by (rule add_mono)
    finally show ?thesis by simp
  qed
  ultimately show ?thesis
    using em by (simp add: e)
qed

lemma round_tenth_one_decimal:
  assumes "\<bar>d - x\<bar> \<le> 2 / 10 ^ 8" "\<bar>x\<bar> \<le> 1000"
  shows "one_decimal_of (1 / 10 ^ 7) (round_tenth (Finite d)) x"
proof -
  from assms(1) have dx: "\<bar>d - x\<bar> \<le> 2 / 100000000" by simp
  with assms(2) have d: "\<bar>d\<bar> \<le> 1001" by linarith
  then have "\<bar>d * 10\<bar> \<le> 10010" by (simp add: abs_mult)
  then have "\<bar>d * 10\<bar> \<le> 2 ^ 25" by simp
  from to_double_close [OF this] obtain t
    where t: "to_double (d * 10) = Finite t" "\<bar>t - d * 10\<bar> \<le> 1 / 10 ^ 8"
    by blast
  define k where "k = \<lfloor>t + 1 / 2\<rfloor>"
  have k: "of_int k \<le> t + 1 / 2" "t + 1 / 2 < of_int k + 1"
    unfolding k_def by linarith+
  from t(2) have td: "\<bar>t - d * 10\<bar> \<le> 1 / 100000000" by simp
  with \<open>\<bar>d * 10\<bar> \<le> 10010\<close> have "\<bar>t\<bar> \<le> 10011" by linarith
  with k have "\<bar>of_int k :: real\<bar> \<le> 10012" by linarith
  then have "\<bar>of_int k / 10 :: real\<bar> \<le> 2 ^ 25" by simp
  from to_double_close [OF this] have f: "to_double (of_int k / 10) = Finite (round64 (of_int k / 10))"
    by (auto simp: to_double_def Let_def split: if_splits)
  have r: "round_tenth (Finite d) = Finite (round64 (of_int k / 10))"
    by (simp add: round_tenth_def t(1) Math_round_def k_def [symmetric] f)
  from k have "\<bar>of_int k - t\<bar> \<le> 1 / 2" by linarith
  moreover from dx have "\<bar>d * 10 - x * 10\<bar> \<le> 2 / 10000000" by linarith
  ultimately have "\<bar>of_int k - x * 10\<bar> \<le> 1 / 2 + 1 / 1000000"
    using td by linarith
  then have "\<bar>of_int k / 10 - x\<bar> \<le> 1 / 20 + 1 / 10000000"
    by linarith
  then have "\<bar>of_int k / 10 - x\<bar> \<le> 1 / 20 + 1 / 10 ^ 7"
    by simp
  then show ?thesis
    unfolding one_decimal_of_def r by blast
qed

lemma average_one_decimal:
  assumes "\<forall>i\<in>set indices. bounded_reading 1000 (element arr i)"
    "indices \<noteq> []" "length indices \<le> 1000"
  shows "one_decimal_of (1 / 10 ^ 7) (round_tenth (average arr indices)) (exact_mean arr indices)"
proof -
  have "\<forall>i\<in>set indices. parsed_reading (element arr i)"
    using bounded_zero_filled [of 1000 arr] assms(1) by auto
  then have a: "average arr indices = mean_zero_filled arr indices"
    by (rule average_mean)
  from mean_zero_filled_close [OF assms] obtain d
    where d: "mean_zero_filled arr indices = Finite d"
      "\<bar>d - exact_mean arr indices\<bar> \<le> 2 / 10 ^ 8" "\<bar>exact_mean arr indices\<bar> \<le> 1000"
    by blast
  from round_tenth_one_decimal [OF d(2,3)] show ?thesis
    by (simp add: a d(1))
qed

text \<open>
  The mean of the binary64 numbers nearest to \<open>0.1\<close> and to \<open>4.6\<close>: their sum rounds to a
  number below \<open>4.7\<close>, ten times its half is below \<open>23.5\<close>, and the result is \<open>2.3\<close>, where
  the exact mean of \<open>0.1\<close> and \<open>4.6\<close> would give \<open>2.4\<close>.
\<close>

lemma two_readings_rounded:
  "round_tenth (average [Some (Finite (round64 (1 / 10))), Some (Finite (round64 (46 / 10)))] [0, 1])
     = Finite (round64 (23 / 10))"
proof -
  define a :: real where "a = 7205759403792794 / 2 ^ 56"
  define b :: real where "b = 5179139571476070 / 2 ^ 50"
  define s :: real where "s = 5291729562160332 / 2 ^ 50"
  define h :: real where "h = 5291729562160332 / 2 ^ 51"
  have "round64 (1 / 10) = of_int (rne (1 / 10 / 2 powi (- 4 - 52))) * 2 powi (- 4 - 52)"
    by (rule round64_eval) simp_all
  also have "rne (1 / 10 / 2 powi (- 4 - 52)) = 7205759403792794"
    by (simp add: rne_def Let_def)
  finally have a: "round64 (1 / 10) = a" by (simp add: a_def)
  have "round64 (46 / 10) = of_int (rne (46 / 10 / 2 powi (2 - 52))) * 2 powi (2 - 52)"
    by (rule round64_eval) simp_all
  also have "rne (46 / 10 / 2 powi (2 - 52)) = 5179139571476070"
    by (simp add: rne_def Let_def)
  finally have b: "round64 (46 / 10) = b" by (simp add: b_def)
  have "round64 a = a"
    by (rule round64_exact [where e = "- 4" and k = 7205759403792794]) (simp_all add: a_def)
  then have a': "round64 (0 + a) = a" by simp
  have "round64 (a + b) = of_int (rne ((a + b) / 2 powi (2 - 52))) * 2 powi (2 - 52)"
    by (rule round64_eval) (simp_all add: a_def b_def)
  also have "rne ((a + b) / 2 powi (2 - 52)) = 5291729562160332"
    by (simp add: rne_def Let_def a_def b_def)
  finally have c: "round64 (a + b) = s" by (simp add: s_def)
  have d: "round64 (s / 2) = h"
    by (rule trans [OF round64_exact [where e = 1 and k = 5291729562160332]])
      (simp_all add: s_def h_def)
  have t: "round64 (h * 10) = h * 10"
    by (rule round64_exact [where e = 4 and k = 6614661952700415]) (simp_all add: h_def)
  have m: "Math_round (h * 10) = 23"
    by (simp add: Math_round_def h_def)
  have "\<bar>0 + a\<bar> \<le> 2 ^ 25" by (simp add: a_def)
  from fadd_small [OF this] have 0: "fadd (Finite 0) (Finite a) = Finite a"
    by (simp only: a')
  have "\<bar>a + b\<bar> \<le> 2 ^ 25" by (simp add: a_def b_def)
  from fadd_small [OF this] have 1: "fadd (Finite a) (Finite b) = Finite s"
    by (simp only: c)
  have "\<bar>s / 2\<bar> \<le> 2 ^ 25" "(2::real) \<noteq> 0" by (simp_all add: s_def)
  from fdiv_small [OF this] have 2: "fdiv (Finite s) (Finite 2) = Finite h"
    by (simp only: d)
  have 3: "fmul (Finite h) (Finite 10) = Finite (h * 10)"
    using fmul_small [of h 10] unfolding t by (simp add: h_def)
  have 4: "fdiv (Finite 23) (Finite 10) = Finite (round64 (23 / 10))"
    by (rule fdiv_small) simp_all
  have n: "a \<noteq> 0" "b \<noteq> 0" by (simp_all add: a_def b_def)
  have "average [Some (Finite a), Some (Finite b)] [0, 1] = Finite h"
    by (simp add: average_def reading_def element_def 0 1 2 n del: fadd.simps fdiv.simps)
  then show ?thesis
    unfolding a b by (simp add: round_tenth_def 3 m 4 del: fmul.simps fdiv.simps)
qed

lemma try_block_success:
  assumes "toISOString pf startTime = Some iso_start" "toISOString pf endTime = Some iso_end"
    and "fetch pf \<lparr>latitude = lat, longitude = lng, start_date = split_T iso_start,
            end_date = split_T iso_end\<rparr> = Response True (Data (Some (all_members h)))"
    and "timeIndices pf (time h) startTime endTime iso_start = indices" "indices \<noteq> []"
  shows "fetchWeatherData pf rnd lat lng startTime endTime =
           \<lparr>temperature = round_tenth (average (temperature_2m h) indices),
            humidity = round_tenth (average (relative_humidity_2m h) indices),
            windSpeed = round_tenth (average (wind_speed_10m h) indices),
            precipitation = round_tenth (average (precipitation_hourly h) indices)\<rparr>"
  using assms by (simp add: fetchWeatherData_def try_block_def Let_def all_members_def)

text \<open>
  With an index selected, claim C3 fails when an array of readings is missing from the
  response: the three times of the sample response are selected, and without the
  precipitation array \<^verbatim>\<open>precipitation[i]\<close> throws, so that all four metrics are the
  synthesized ones (with \<open>0\<close> for the four random numbers: \<open>15\<close>, \<open>40\<close>, \<open>0\<close>, \<open>0\<close>), not the means
  of the readings, which for the temperature is \<open>10.3\<close>.
\<close>

theorem missing_array_gives_fallback:
  "timeIndices (sample_platform (Response True (Data (Some no_precipitation))))
       (time sample_hourly) 0 7200000 ''1970-01-01T00:00:00.000Z'' = [0, 1, 2]
   \<and> time_member no_precipitation = Some (time sample_hourly)
   \<and> temperature_2m_member no_precipitation = Some [Some (Finite 10), None, Some (Finite 21)]
   \<and> fetchWeatherData (sample_platform (Response True (Data (Some no_precipitation))))
        (Finite 0, Finite 0, Finite 0, Finite 0) 1 2 0 7200000
       = \<lparr>temperature = Finite 15, humidity = Finite 40, windSpeed = Finite 0,
          precipitation = Finite 0\<rparr>"
proof -
  have "fetchWeatherData (sample_platform (Response True (Data (Some no_precipitation))))
        rnd 1 2 0 7200000 = mockData rnd" for rnd
    by (simp add: fetchWeatherData_def try_block_def sample_platform_def no_precipitation_def
        all_members_def sample_indices [unfolded sample_platform_def] Let_def)
  moreover have "mockData (Finite 0, Finite 0, Finite 0, Finite 0)
      = \<lparr>temperature = Finite 15, humidity = Finite 40, windSpeed = Finite 0,
         precipitation = Finite 0\<rparr>"
    by (simp add: mockData_def to_double_0 to_double_small)
  moreover have "time_member no_precipitation = Some (time sample_hourly)"
    "temperature_2m_member no_precipitation = Some [Some (Finite 10), None, Some (Finite 21)]"
    by (simp_all add: no_precipitation_def all_members_def sample_hourly_def)
  ultimately show ?thesis
    by (simp only: sample_indices simp_thms)
qed

text \<open>
  Claim C3, as amended.  When the request succeeds with the five arrays in the response
  and the list of selected hourly indices is not empty, each of the four metrics returned
  is computed in binary64 arithmetic as the claim describes: the readings at the selected
  indices, every missing one replaced by \<open>0\<close>, are added from left to right, the sum is
  divided by their number, and the mean \<open>m\<close> is rounded as \<^verbatim>\<open>Math.round(m * 10) / 10\<close>.  For
  at most \<open>1000\<close> indices and readings of magnitude at most \<open>1000\<close> the metric is the binary64
  number nearest to a whole number of tenths that is within \<open>0.05 + 10\<^sup>-\<^sup>7\<close> of the exact
  mean.
\<close>

theorem fetchWeatherData_average:
  assumes "toISOString pf startTime = Some iso_start" "toISOString pf endTime = Some iso_end"
    and "fetch pf \<lparr>latitude = lat, longitude = lng, start_date = split_T iso_start,
            end_date = split_T iso_end\<rparr> = Response True (Data (Some (all_members h)))"
    and "timeIndices pf (time h) startTime endTime iso_start = indices" "indices \<noteq> []"
  shows "((\<forall>i\<in>set indices.
             parsed_reading (element (temperature_2m h) i) \<and>
             parsed_reading (element (relative_humidity_2m h) i) \<and>
             parsed_reading (element (wind_speed_10m h) i) \<and>
             parsed_reading (element (precipitation_hourly h) i)) \<longrightarrow>
          fetchWeatherData pf rnd lat lng startTime endTime =
            \<lparr>temperature = round_tenth (mean_zero_filled (temperature_2m h) indices),
             humidity = round_tenth (mean_zero_filled (relative_humidity_2m h) indices),
             windSpeed = round_tenth (mean_zero_filled (wind_speed_10m h) indices),
             precipitation = round_tenth (mean_zero_filled (precipitation_hourly h) indices)\<rparr>)
     \<and> (length indices \<le> 1000 \<and>
          (\<forall>i\<in>set indices. bounded_reading 1000 (element (temperature_2m h) i)) \<longrightarrow>
          one_decimal_of (1 / 10 ^ 7)
            (temperature (fetchWeatherData pf rnd lat lng startTime endTime))
            (exact_mean (temperature_2m h) indices))
     \<and> (length indices \<le> 1000 \<and>
          (\<forall>i\<in>set indices. bounded_reading 1000 (element (relative_humidity_2m h) i)) \<longrightarrow>
          one_decimal_of (1 / 10 ^ 7)
            (humidity (fetchWeatherData pf rnd lat lng startTime endTime))
            (exact_mean (relative_humidity_2m h) indices))
     \<and> (length indices \<le> 1000 \<and>
          (\<forall>i\<in>set indices. bounded_reading 1000 (element (wind_speed_10m h) i)) \<longrightarrow>
          one_decimal_of (1 / 10 ^ 7)
            (windSpeed (fetchWeatherData pf rnd lat lng startTime endTime))
            (exact_mean (wind_speed_10m h) indices))
     \<and> (length indices \<le> 1000 \<and>
          (\<forall>i\<in>set indices. bounded_reading 1000 (element (precipitation_hourly h) i)) \<longrightarrow>
          one_decimal_of (1 / 10 ^ 7)
            (precipitation (fetchWeatherData pf rnd lat lng startTime endTime))
            (exact_mean (precipitation_hourly h) indices))"
proof -
  note s = try_block_success [OF assms, of rnd]
  have 1: "fetchWeatherData pf rnd lat lng startTime endTime =
        \<lparr>temperature = round_tenth (mean_zero_filled (temperature_2m h) indices),
         humidity = round_tenth (mean_zero_filled (relative_humidity_2m h) indices),
         windSpeed = round_tenth (mean_zero_filled (wind_speed_10m h) indices),
         precipitation = round_tenth (mean_zero_filled (precipitation_hourly h) indices)\<rparr>"
    if p: "\<forall>i\<in>set indices.
             parsed_reading (element (temperature_2m h) i) \<and>
             parsed_reading (element (relative_humidity_2m h) i) \<and>
             parsed_reading (element (wind_speed_10m h) i) \<and>
             parsed_reading (element (precipitation_hourly h) i)"
  proof -
    from p have "average (temperature_2m h) indices = mean_zero_filled (temperature_2m h) indices"
      "average (relative_humidity_2m h) indices
        = mean_zero_filled (relative_humidity_2m h) indices"
      "average (wind_speed_10m h) indices = mean_zero_filled (wind_speed_10m h) indices"
      "average (precipitation_hourly h) indices
        = mean_zero_filled (precipitation_hourly h) indices"
      by (simp_all add: average_mean)
    then show ?thesis
      unfolding s by (simp only:)
  qed
  have 2: "one_decimal_of (1 / 10 ^ 7) (round_tenth (average arr indices))
        (exact_mean arr indices)"
    if "length indices \<le> 1000 \<and> (\<forall>i\<in>set indices. bounded_reading 1000 (element arr i))"
    for arr
    using that assms(5) by (intro average_one_decimal) simp_all
  from 1 2 [of "temperature_2m h"] 2 [of "relative_humidity_2m h"] 2 [of "wind_speed_10m h"]
    2 [of "precipitation_hourly h"]
  show ?thesis
    unfolding s WeatherData.simps by (intro conjI impI)
qed

lemma one_decimal_unique:
  assumes "one_decimal_of (1 / 10 ^ 7) y x" "\<bar>of_int n / 10 - x\<bar> \<le> 4 / 100"
  shows "y = Finite (round64 (of_int n / 10))"
proof -
  from assms(1) obtain k :: int
    where k: "y = Finite (round64 (of_int k / 10))" "\<bar>of_int k / 10 - x\<bar> \<le> 1 / 20 + 1 / 10 ^ 7"
    unfolding one_decimal_of_def by blast
  from k(2) have "\<bar>of_int k / 10 - x\<bar> \<le> 1 / 20 + 1 / 10000000" by simp
  with assms(2) have "\<bar>of_int k - (of_int n :: real)\<bar> < 1" by linarith
  then have "\<bar>of_int (k - n) :: real\<bar> < of_int 1" by simp
  then have "\<bar>k - n\<bar> < 1"
    unfolding of_int_abs [symmetric] by (simp only: of_int_less_iff)
  then have "k = n" by simp
  with k(1) show ?thesis by simp
qed

lemma two_indices:
  "timeIndices (sample_platform x) (time two_readings) 0 3600000 i = [0, 1]"
  by (simp add: timeIndices_def two_readings_def sample_hourly_def sample_platform_def
      in_time_range_def upt_rec)

theorem fetchWeatherData_average_witness:
  "fetchWeatherData (sample_platform (Response True (Data (Some (all_members sample_hourly)))))
       (Finite 0, Finite 0, Finite 0, Finite 0) 1 2 0 7200000
     = \<lparr>temperature = Finite (round64 (103 / 10)), humidity = Finite 60,
        windSpeed = Finite (round64 (23 / 10)), precipitation = Finite 0\<rparr>
   \<and> temperature
       (fetchWeatherData (sample_platform (Response True (Data (Some (all_members two_readings)))))
         (Finite 0, Finite 0, Finite 0, Finite 0) 1 2 0 3600000)
     = Finite (round64 (23 / 10))"
proof -
  let ?pf = "sample_platform (Response True (Data (Some (all_members sample_hourly))))"
  let ?w = "fetchWeatherData ?pf (Finite 0, Finite 0, Finite 0, Finite 0) 1 2 0 7200000"
  have iso: "toISOString (sample_platform x) 0 = Some ''1970-01-01T00:00:00.000Z''"
    "toISOString (sample_platform x) 3600000 = Some ''1970-01-01T01:00:00.000Z''"
    "toISOString (sample_platform x) 7200000 = Some ''1970-01-01T02:00:00.000Z''" for x
    by (simp_all add: sample_platform_def)
  have f: "fetch (sample_platform x) req = x" for x req
    by (simp add: sample_platform_def)
  have ne: "[0, 1, 2] \<noteq> ([] :: nat list)" "[0, 1] \<noteq> ([] :: nat list)"
    by simp_all
  note t = fetchWeatherData_average [OF iso(1) iso(3) f sample_indices ne(1),
      of "(Finite 0, Finite 0, Finite 0, Finite 0)" 1 2]
  have len: "length [0, 1, 2 :: nat] \<le> 1000" by simp
  have b: "\<forall>i\<in>set [0, 1, 2]. bounded_reading 1000 (element (temperature_2m sample_hourly) i)"
    "\<forall>i\<in>set [0, 1, 2]. bounded_reading 1000 (element (relative_humidity_2m sample_hourly) i)"
    "\<forall>i\<in>set [0, 1, 2]. bounded_reading 1000 (element (wind_speed_10m sample_hourly) i)"
    "\<forall>i\<in>set [0, 1, 2]. bounded_reading 1000 (element (precipitation_hourly sample_hourly) i)"
    by (simp_all add: bounded_reading_def element_def sample_hourly_def)
  have m: "exact_mean (temperature_2m sample_hourly) [0, 1, 2] = 31 / 3"
    "exact_mean (relative_humidity_2m sample_hourly) [0, 1, 2] = 60"
    "exact_mean (wind_speed_10m sample_hourly) [0, 1, 2] = 7 / 3"
    "exact_mean (precipitation_hourly sample_hourly) [0, 1, 2] = 0"
    by (simp_all add: exact_mean_def zero_filled_def element_def sample_hourly_def)
  from t [THEN conjunct2, THEN conjunct1, THEN mp, OF conjI, OF len b(1)]
  have "one_decimal_of (1 / 10 ^ 7) (temperature ?w) (31 / 3)"
    by (simp only: m)
  from one_decimal_unique [OF this, of 103]
  have 1: "temperature ?w = Finite (round64 (103 / 10))" by simp
  from t [THEN conjunct2, THEN conjunct2, THEN conjunct1, THEN mp, OF conjI, OF len b(2)]
  have "one_decimal_of (1 / 10 ^ 7) (humidity ?w) 60"
    by (simp only: m)
  from one_decimal_unique [OF this, of 600]
  have 2: "humidity ?w = Finite 60" by simp
  from t [THEN conjunct2, THEN conjunct2, THEN conjunct2, THEN conjunct1, THEN mp, OF conjI,
      OF len b(3)]
  have "one_decimal_of (1 / 10 ^ 7) (windSpeed ?w) (7 / 3)"
    by (simp only: m)
  from one_decimal_unique [OF this, of 23]
  have 3: "windSpeed ?w = Finite (round64 (23 / 10))" by simp
  from t [THEN conjunct2, THEN conjunct2, THEN conjunct2, THEN conjunct2, THEN mp, OF conjI,
      OF len b(4)]
  have "one_decimal_of (1 / 10 ^ 7) (precipitation ?w) 0"
    by (simp only: m)
  from one_decimal_unique [OF this, of 0]
  have 4: "precipitation ?w = Finite 0" by simp
  have w: "?w = \<lparr>temperature = Finite (round64 (103 / 10)), humidity = Finite 60,
        windSpeed = Finite (round64 (23 / 10)), precipitation = Finite 0\<rparr>"
    by (rule WeatherData.equality) (simp_all add: 1 2 3 4)
  let ?arr = "[Some (Finite (round64 (1 / 10))), Some (Finite (round64 (46 / 10)))]"
  have p: "\<forall>i\<in>set [0, 1].
      parsed_reading (element (temperature_2m two_readings) i) \<and>
      parsed_reading (element (relative_humidity_2m two_readings) i) \<and>
      parsed_reading (element (wind_speed_10m two_readings) i) \<and>
      parsed_reading (element (precipitation_hourly two_readings) i)"
    by (simp add: parsed_reading_def element_def two_readings_def sample_hourly_def)
  have q: "\<forall>i\<in>set [0, 1]. parsed_reading (element ?arr i)"
    by (simp add: parsed_reading_def element_def)
  from fetchWeatherData_average [OF iso(1) iso(2) f two_indices ne(2),
      of "(Finite 0, Finite 0, Finite 0, Finite 0)" 1 2, THEN conjunct1, THEN mp, OF p]
  have "temperature
       (fetchWeatherData (sample_platform (Response True (Data (Some (all_members two_readings)))))
         (Finite 0, Finite 0, Finite 0, Finite 0) 1 2 0 3600000)
      = round_tenth (mean_zero_filled (temperature_2m two_readings) [0, 1])"
    by (simp only: WeatherData.simps)
  also have "temperature_2m two_readings = ?arr"
    by (simp add: two_readings_def)
  also have "round_tenth (mean_zero_filled ?arr [0, 1]) = Finite (round64 (23 / 10))"
    unfolding average_mean [OF q, symmetric] by (rule two_readings_rounded)
  finally show ?thesis
    using w by (intro conjI)
qed

text \<open>
  Claim C4.  In range mode (\<open>startTime < endTime\<close>) the selected indices are exactly the
  indices of the hourly array whose time \<open>t\<close> satisfies \<open>startTime \<le> t \<le> endTime\<close>, both
  ends included, each once and in increasing order.
\<close>

theorem timeIndices_range:
  assumes "startTime < endTime"
  shows "set (timeIndices pf hourly_time startTime endTime iso_start) =
           {i. i < length hourly_time \<and>
               (\<exists>t. getTime pf (hourly_time ! i) = Some t \<and> startTime \<le> t \<and> t \<le> endTime)}
     \<and> sorted (timeIndices pf hourly_time startTime endTime iso_start)
     \<and> distinct (timeIndices pf hourly_time startTime endTime iso_start)"
proof -
  from assms have ne: "startTime \<noteq> endTime" by simp
  have "in_time_range pf startTime endTime s
          = (\<exists>t. getTime pf s = Some t \<and> startTime \<le> t \<and> t \<le> endTime)" for s
    by (simp add: in_time_range_def split: option.splits)
  with ne show ?thesis
    by (auto simp: timeIndices_def sorted_wrt_filter)
qed

theorem timeIndices_range_witness:
  "(0 :: real) < 3600000
   \<and> set (timeIndices (sample_platform NetworkError) (time sample_hourly) 0 3600000 []) = {0, 1}"
proof -
  have lt: "(0 :: real) < 3600000" by simp
  have "{i. i < length (time sample_hourly) \<and>
            (\<exists>t. getTime (sample_platform NetworkError) (time sample_hourly ! i) = Some t
                 \<and> 0 \<le> t \<and> t \<le> 3600000)} = {0, 1}"
    by (auto simp: sample_hourly_def sample_platform_def less_Suc_eq numeral_3_eq_3)
  with timeIndices_range [OF lt, of "sample_platform NetworkError" "time sample_hourly" "[]"] lt
  show ?thesis by simp
qed


section \<open>Properties of the time window\<close>

lemma durations: "hourMs = 3600000" "dayMs = 86400000" "fifteenDaysMs = 1296000000"
  by (simp_all add: hourMs_def dayMs_def fifteenDaysMs_def)

text \<open>
  Claim C7.  In range mode the down arrow narrows the range by one hour at each end, or by
  one day with the shift key.  When the new end would not be after the new start, the
  selection is returned as it was; otherwise the new selection is the range
  \<open>[start + delta, end - delta]\<close>.
\<close>

theorem arrowDown_contraction:
  assumes "\<not> target_is_input e" "key e = ArrowDown"
    and "mode ts = RangeMode" "range_ts ts = Some (start, end')"
    and "delta = (if shiftKey e then 86400000 else 3600000)"
  shows "(end' - delta \<le> start + delta \<longrightarrow> handleKeyDown now e ts = ts)
     \<and> (end' - delta > start + delta \<longrightarrow>
          handleKeyDown now e ts = range_selection (start + delta) (end' - delta))"
  using assms by (auto simp: handleKeyDown_def Let_def durations)

theorem arrowDown_contraction_witness:
  "handleKeyDown 0 \<lparr>key = ArrowDown, shiftKey = False, ctrlKey = False, metaKey = False,
       target_is_input = False\<rparr> (range_selection 0 7200000) = range_selection 0 7200000
   \<and> handleKeyDown 0 \<lparr>key = ArrowDown, shiftKey = False, ctrlKey = False, metaKey = False,
       target_is_input = False\<rparr> (range_selection 0 10800000) = range_selection 3600000 7200000
   \<and> handleKeyDown 0 \<lparr>key = ArrowDown, shiftKey = True, ctrlKey = False, metaKey = False,
       target_is_input = False\<rparr> (range_selection 0 259200000)
       = range_selection 86400000 172800000"
proof -
  let ?e = "\<lparr>key = ArrowDown, shiftKey = False, ctrlKey = False, metaKey = False,
       target_is_input = False\<rparr>"
  let ?s = "\<lparr>key = ArrowDown, shiftKey = True, ctrlKey = False, metaKey = False,
       target_is_input = False\<rparr>"
  have a: "handleKeyDown 0 ?e (range_selection 0 7200000) = range_selection 0 7200000"
    using arrowDown_contraction [of ?e "range_selection 0 7200000" 0 7200000 3600000 0]
    by (simp add: range_selection_def)
  have b: "handleKeyDown 0 ?e (range_selection 0 10800000) = range_selection 3600000 7200000"
    using arrowDown_contraction [of ?e "range_selection 0 10800000" 0 10800000 3600000 0]
    by (simp add: range_selection_def)
  have c: "handleKeyDown 0 ?s (range_selection 0 259200000) = range_selection 86400000 172800000"
    using arrowDown_contraction [of ?s "range_selection 0 259200000" 0 259200000 86400000 0]
    by (simp add: range_selection_def)
  from a b c show ?thesis by simp
qed

subsection \<open>The range invariants\<close>

text \<open>
  Moving, widening, narrowing, jumping to either end, clicking and dragging the whole
  range keep a range in order and inside \<open>[now - 15d, now + 15d]\<close>; these handlers clamp
  the new start to the extent.
\<close>

lemma extent_order: "fst (timeExtent now) \<le> snd (timeExtent now)"
  by (simp add: timeExtent_def fifteenDaysMs_def)

lemma moveTime_invariant:
  assumes "mode ts = RangeMode" "ordered ts" "within_extent now ts"
  shows "ordered (moveTime now deltaMs ts) \<and> within_extent now (moveTime now deltaMs ts)"
  using assms
  by (auto simp: moveTime_def ordered_def within_extent_def range_selection_def Let_def
      split: option.splits)

lemma handleKeyDown_invariant:
  assumes "mode ts = RangeMode" "ordered ts" "within_extent now ts"
  shows "ordered (handleKeyDown now e ts) \<and> within_extent now (handleKeyDown now e ts)"
proof (cases "target_is_input e")
  case True
  with assms show ?thesis by (simp add: handleKeyDown_def)
next
  case False
  note ext = extent_order [of now]
  show ?thesis
  proof (cases "key e")
    case ArrowLeft
    with False moveTime_invariant [OF assms] show ?thesis
      by (simp add: handleKeyDown_def)
  next
    case ArrowRight
    with False moveTime_invariant [OF assms] show ?thesis
      by (simp add: handleKeyDown_def)
  next
    case ArrowUp
    with False assms ext show ?thesis
      by (auto simp: handleKeyDown_def ordered_def within_extent_def range_selection_def
          Let_def durations split: option.splits)
  next
    case ArrowDown
    with False assms ext show ?thesis
      by (auto simp: handleKeyDown_def ordered_def within_extent_def range_selection_def
          Let_def durations split: option.splits)
  next
    case Home
    with False assms ext show ?thesis
      by (auto simp: handleKeyDown_def ordered_def within_extent_def range_selection_def
          Let_def split: option.splits)
  next
    case End
    with False assms ext show ?thesis
      by (auto simp: handleKeyDown_def ordered_def within_extent_def range_selection_def
          Let_def split: option.splits)
  next
    case KeyR
    with False assms show ?thesis
      by (auto simp: handleKeyDown_def ordered_def within_extent_def single_selection_def
          split: option.splits)
  qed (use False assms in \<open>simp_all add: handleKeyDown_def\<close>)
qed

lemma handleTimelineClick_invariant:
  assumes "mode ts = RangeMode" "ordered ts" "within_extent now ts"
  shows "ordered (handleTimelineClick now d pointer ts)
     \<and> within_extent now (handleTimelineClick now d pointer ts)"
  using assms
  by (auto simp: handleTimelineClick_def ordered_def within_extent_def range_selection_def
      Let_def split: option.splits)

lemma handleMouseMove_range_invariant:
  assumes "mode ts = RangeMode" "ordered ts" "within_extent now ts"
  shows "ordered (handleMouseMove now (Some DragRange) pointer ts)
     \<and> within_extent now (handleMouseMove now (Some DragRange) pointer ts)"
  using assms
  by (auto simp: handleMouseMove_def ordered_def within_extent_def range_selection_def
      Let_def split: option.splits)

text \<open>Dragging either handle keeps the ends in order.\<close>

lemma handleMouseMove_ordered:
  assumes "mode ts = RangeMode" "ordered ts"
  shows "ordered (handleMouseMove now d pointer ts)"
  using assms
  by (auto simp: handleMouseMove_def ordered_def range_selection_def
      Let_def split: option.splits dragging.splits)

text \<open>
  The handle drags clamp the pointer to \<open>[0, 100]\<close> and then round the time to the nearest
  hour; the result is not clamped to the extent.  With \<open>now = 1700000000000\<close> the extent
  starts at \<open>1698704000000\<close>, and the pointer at the left edge gives \<open>1698703200000\<close>,
  \<open>800000\<close> ms before the extent.
\<close>

lemma positionToTime_left: "positionToTime 1700000000000 0 = 1698703200000"
proof -
  have "\<lfloor>(8493523 / 18 :: real)\<rfloor> = 471862"
    by linarith
  then show ?thesis
    by (simp add: positionToTime_def timeExtent_def fifteenDaysMs_def Math_round_def)
qed

text \<open>
  Claim C8 at a failing input.  The range \<open>[now - 1h, now + 1h]\<close> is in order and inside
  the extent; dragging its start handle to the left edge of the timeline gives a range
  that starts before \<open>now - 15d\<close>.
\<close>

theorem handleMouseMove_leaves_extent:
  "ordered (range_selection 1699996400000 1700003600000)
   \<and> within_extent 1700000000000 (range_selection 1699996400000 1700003600000)
   \<and> handleMouseMove 1700000000000 (Some DragStart) 0 (range_selection 1699996400000 1700003600000)
       = range_selection 1698703200000 1700003600000
   \<and> fst (timeExtent 1700000000000) = 1698704000000
   \<and> \<not> within_extent 1700000000000
         (handleMouseMove 1700000000000 (Some DragStart) 0
            (range_selection 1699996400000 1700003600000))"
proof -
  have m: "handleMouseMove 1700000000000 (Some DragStart) 0
      (range_selection 1699996400000 1700003600000) = range_selection 1698703200000 1700003600000"
    by (simp add: handleMouseMove_def positionToTime_left range_selection_def)
  show ?thesis
    unfolding m
    by (simp add: ordered_def within_extent_def range_selection_def timeExtent_def
        fifteenDaysMs_def)
qed


section \<open>Properties of the persistence\<close>

lemma array_or_isArray: "isArray d \<Longrightarrow> isArray (array_or v d)"
  by (simp add: array_or_def split: option.splits)

lemma truthy_or_truthy: "truthy d \<Longrightarrow> truthy (truthy_or v d)"
  by (simp add: truthy_or_def split: option.splits)

lemma defaultState_valid:
  "isArray (polygons (defaultState now))" "isArray (colorRules (defaultState now))"
  "truthy (selectedDataSource (defaultState now))" "truthy (timeSelection (defaultState now))"
  "truthy (mapView (defaultState now))"
  by (simp_all add: defaultState_def default_colorRules_def isArray_def truthy_def)

text \<open>What a load returns, member by member, from the member of the stored blob.\<close>

lemma getFromStorage_members:
  "polygons (getFromStorage now br) = array_or (stored_member br ''polygons'') (JArr [])"
  "colorRules (getFromStorage now br)
     = array_or (stored_member br ''colorRules'') default_colorRules"
  "selectedDataSource (getFromStorage now br)
     = truthy_or (stored_member br ''selectedDataSource'') (JStr ''temperature'')"
  "timeSelection (getFromStorage now br)
     = truthy_or (stored_member br ''timeSelection'') (timeSelection (defaultState now))"
  "mapView (getFromStorage now br)
     = truthy_or (stored_member br ''mapView'') (mapView (defaultState now))"
  by (auto simp: getFromStorage_def stored_member_def array_or_def truthy_or_def member_of_def
      defaultState_def split: option.splits stored_text.splits json.splits)

lemma getFromStorage_valid:
  "isArray (polygons (getFromStorage now br))" "isArray (colorRules (getFromStorage now br))"
  "truthy (selectedDataSource (getFromStorage now br))"
  "truthy (timeSelection (getFromStorage now br))" "truthy (mapView (getFromStorage now br))"
  unfolding getFromStorage_members
  using defaultState_valid [of now]
  by (simp_all add: array_or_isArray truthy_or_truthy defaultState_def)

text \<open>Reading a parsed value into memory and writing it again gives the parsed value.\<close>

lemma to_json_of_json:
  "to_json (of_json j) = Some j"
  "elements_json (of_elements xs) = xs"
  "members_json (of_members ms) = ms"
  by (induction j and xs and ms rule: of_json_of_elements_of_members.induct) simp_all

lemma of_json_json_value: "json_value (of_json j)"
  by (simp add: json_value_def to_json_of_json)

text \<open>The two checks of a load agree on a value in memory and on what is written for it.\<close>

lemma isArray_to_json: "to_json v = Some j \<Longrightarrow> isArray j = isArray_value v"
  by (cases v) (auto simp: isArray_def isArray_value_def)

lemma truthy_to_json:
  "to_json v = Some j \<Longrightarrow> of_json j = v \<Longrightarrow> truthy j = truthy_value v"
  by (cases v) (auto simp: truthy_def truthy_value_def)

lemma valid_to_json:
  "to_json v = Some j \<Longrightarrow> of_json j = v \<Longrightarrow> valid_field f j = valid_value f v"
  by (cases f) (simp_all add: valid_field_def valid_value_def isArray_to_json truthy_to_json)

text \<open>The blob that a save writes, when the browser stores it.\<close>

lemma members_json_member:
  "distinct (map fst ms) \<Longrightarrow>
     map_of (members_json ms) k = (case map_of ms k of None \<Rightarrow> None | Some v \<Rightarrow> to_json v)"
proof (induction ms)
  case Nil
  show ?case by simp
next
  case (Cons a ms)
  obtain k' v' where a: "a = (k', v')" by (cases a)
  from Cons.prems have d: "distinct (map fst ms)" and n: "k' \<notin> fst ` set ms"
    by (simp_all add: a)
  note tl = Cons.IH [OF d]
  have absent: "map_of ms k' = None"
    using n by (simp add: map_of_eq_None_iff)
  show ?case
  proof (cases "to_json v'")
    case None
    with tl absent show ?thesis
      by (simp add: a)
  next
    case (Some x)
    with tl show ?thesis
      by (simp add: a)
  qed
qed

lemma saveToStorage_member:
  assumes "has_window br" "readable br" "writable br"
  shows "stored_member (saveToStorage now data br) k =
           (case map_of
                   [(''polygons'', spread (polygons (getFromStorage now br)) (polygons_p data)),
                    (''colorRules'',
                       spread (colorRules (getFromStorage now br)) (colorRules_p data)),
                    (''selectedDataSource'',
                       spread (selectedDataSource (getFromStorage now br))
                         (selectedDataSource_p data)),
                    (''timeSelection'',
                       spread (timeSelection (getFromStorage now br)) (timeSelection_p data)),
                    (''mapView'', spread (mapView (getFromStorage now br)) (mapView_p data))] k
            of None \<Rightarrow> None | Some v \<Rightarrow> to_json v)"
proof -
  let ?ms = "[(''polygons'', spread (polygons (getFromStorage now br)) (polygons_p data)),
              (''colorRules'', spread (colorRules (getFromStorage now br)) (colorRules_p data)),
              (''selectedDataSource'',
                 spread (selectedDataSource (getFromStorage now br)) (selectedDataSource_p data)),
              (''timeSelection'',
                 spread (timeSelection (getFromStorage now br)) (timeSelection_p data)),
              (''mapView'', spread (mapView (getFromStorage now br)) (mapView_p data))]"
  have d: "distinct (map fst ?ms)"
    by simp
  from assms have "stored_member (saveToStorage now data br) k = map_of (members_json ?ms) k"
    by (simp add: saveToStorage_def stored_member_def Let_def stringify_def member_of_def)
  with members_json_member [OF d, of k] show ?thesis
    by simp
qed

lemma saveToStorage_members:
  assumes "has_window br" "readable br" "writable br"
  shows "stored_member (saveToStorage now data br) ''polygons''
           = to_json (spread (polygons (getFromStorage now br)) (polygons_p data))"
    and "stored_member (saveToStorage now data br) ''colorRules''
           = to_json (spread (colorRules (getFromStorage now br)) (colorRules_p data))"
    and "stored_member (saveToStorage now data br) ''selectedDataSource''
           = to_json (spread (selectedDataSource (getFromStorage now br))
               (selectedDataSource_p data))"
    and "stored_member (saveToStorage now data br) ''timeSelection''
           = to_json (spread (timeSelection (getFromStorage now br)) (timeSelection_p data))"
    and "stored_member (saveToStorage now data br) ''mapView''
           = to_json (spread (mapView (getFromStorage now br)) (mapView_p data))"
  by (simp_all add: saveToStorage_member [OF assms])

lemma array_or_spread:
  "isArray old \<Longrightarrow>
     array_or (to_json (spread old p)) d =
       (case p of
          Absent \<Rightarrow> old
        | Given v \<Rightarrow>
            (case to_json v of None \<Rightarrow> d | Some j \<Rightarrow> if isArray j then j else d))"
  by (simp add: array_or_def spread_def to_json_of_json split: partial.splits)

lemma truthy_or_spread:
  "truthy old \<Longrightarrow>
     truthy_or (to_json (spread old p)) d =
       (case p of
          Absent \<Rightarrow> old
        | Given v \<Rightarrow>
            (case to_json v of None \<Rightarrow> d | Some j \<Rightarrow> if truthy j then j else d))"
  by (simp add: truthy_or_def spread_def to_json_of_json split: partial.splits)

text \<open>A load after a save, member by member.\<close>

lemma load_after_save:
  assumes "has_window br" "readable br" "writable br"
  shows "polygons (getFromStorage now' (saveToStorage now data br)) =
           (case polygons_p data of
              Absent \<Rightarrow> polygons (getFromStorage now br)
            | Given v \<Rightarrow>
                (case to_json v of
                   None \<Rightarrow> JArr []
                 | Some j \<Rightarrow> if isArray j then j else JArr []))"
    and "colorRules (getFromStorage now' (saveToStorage now data br)) =
           (case colorRules_p data of
              Absent \<Rightarrow> colorRules (getFromStorage now br)
            | Given v \<Rightarrow>
                (case to_json v of
                   None \<Rightarrow> default_colorRules
                 | Some j \<Rightarrow> if isArray j then j else default_colorRules))"
    and "selectedDataSource (getFromStorage now' (saveToStorage now data br)) =
           (case selectedDataSource_p data of
              Absent \<Rightarrow> selectedDataSource (getFromStorage now br)
            | Given v \<Rightarrow>
                (case to_json v of
                   None \<Rightarrow> JStr ''temperature''
                 | Some j \<Rightarrow> if truthy j then j else JStr ''temperature''))"
    and "timeSelection (getFromStorage now' (saveToStorage now data br)) =
           (case timeSelection_p data of
              Absent \<Rightarrow> timeSelection (getFromStorage now br)
            | Given v \<Rightarrow>
                (case to_json v of
                   None \<Rightarrow> timeSelection (defaultState now')
                 | Some j \<Rightarrow> if truthy j then j else timeSelection (defaultState now')))"
    and "mapView (getFromStorage now' (saveToStorage now data br)) =
           (case mapView_p data of
              Absent \<Rightarrow> mapView (getFromStorage now br)
            | Given v \<Rightarrow>
                (case to_json v of
                   None \<Rightarrow> mapView (defaultState now')
                 | Some j \<Rightarrow> if truthy j then j else mapView (defaultState now')))"
  unfolding getFromStorage_members [of now' "saveToStorage now data br"]
    saveToStorage_members [OF assms]
  by (simp_all add: array_or_spread truthy_or_spread getFromStorage_valid)

lemma load_after_save_field:
  assumes "has_window br" "readable br" "writable br"
  shows "get_field f (getFromStorage now' (saveToStorage now data br)) =
           (case get_partial f data of
              Absent \<Rightarrow> get_field f (getFromStorage now br)
            | Given v \<Rightarrow>
                (case to_json v of
                   None \<Rightarrow> get_field f (defaultState now')
                 | Some j \<Rightarrow> if valid_field f j then j else get_field f (defaultState now')))"
  by (cases f)
    (simp_all add: get_field_def get_partial_def valid_field_def load_after_save [OF assms]
      defaultState_def split: partial.splits option.splits)

text \<open>
  Claim C9 fails in a browser whose storage works, in both halves.  The state
  \<open>nan_state\<close> is the sample state after the sidebar has put \<^verbatim>\<open>parseFloat('')\<close>, which is
  \<^verbatim>\<open>NaN\<close>, in the lower bound of a condition: its five members pass the checks of a
  load, yet the colour rules that come back have \<^verbatim>\<open>null\<close> in the place of \<^verbatim>\<open>NaN\<close>.  And
  with the string \<open>oops\<close> persisted for the polygons, a save that leaves the polygons out
  does not keep it: the load that the save starts with replaces it by the empty list,
  which is then written.
\<close>

theorem roundtrip_loses_nan_and_invalid_member:
  "valid_value Polygons (polygons_s nan_state)
   \<and> valid_value ColorRules (colorRules_s nan_state)
   \<and> valid_value SelectedDataSource (selectedDataSource_s nan_state)
   \<and> valid_value TimeSelection (timeSelection_s nan_state)
   \<and> valid_value MapView (mapView_s nan_state)
   \<and> colorRules (getFromStorage 0 (saveToStorage 0 (whole_state nan_state) fresh_browser))
       = JArr [JObj [(''id'', JStr ''temp-default''), (''dataSource'', JStr ''temperature''),
                     (''conditions'',
                        JArr [JObj [(''min'', JNull), (''max'', JNum 10),
                                    (''color'', JStr ''#06b6d4''), (''label'', JStr ''Cold'')]])]]
   \<and> of_json (colorRules
         (getFromStorage 0 (saveToStorage 0 (whole_state nan_state) fresh_browser)))
       \<noteq> colorRules_s nan_state
   \<and> stored_member oops_browser ''polygons'' = Some (JStr ''oops'')
   \<and> stored_member (saveToStorage 0 only_source oops_browser) ''polygons'' = Some (JArr [])
   \<and> polygons (getFromStorage 0 (saveToStorage 0 only_source oops_browser)) = JArr []"
  by (simp add: saveToStorage_def getFromStorage_def fresh_browser_def oops_browser_def
      defaultState_def valid_value_def isArray_value_def truthy_value_def Let_def
      sample_state_def nan_state_def whole_state_def only_source_def stored_member_def
      member_of_def spread_def stringify_def array_or_def truthy_or_def isArray_def truthy_def)

text \<open>
  Claim C9, as amended.  In a browser whose storage can be read and written: a member
  given to a save with a value that passes the check of a load (an array for the polygons
  and for the colour rules, a truthy value for the other three) and that JSON writes and
  reads back unchanged (so with no \<^verbatim>\<open>NaN\<close>, infinity or \<^verbatim>\<open>undefined\<close> in it) is returned by
  the load as given, and so is every member of a whole state of such values; whatever the
  value given, the load returns what JSON reads back when that passes the check, and the
  default otherwise; a member left out of the save is returned as the load before the
  save returned it, which is the member of the stored blob when that passed the check.
\<close>

theorem save_load_roundtrip:
  assumes "has_window br" "readable br" "writable br"
  shows "((\<forall>f. valid_value f (state_field f st) \<and> json_value (state_field f st)) \<longrightarrow>
            (\<forall>f. of_json (get_field f
                    (getFromStorage now' (saveToStorage now (whole_state st) br)))
                  = state_field f st))
     \<and> (get_partial f data = Given v \<and> valid_value f v \<and> json_value v \<longrightarrow>
            of_json (get_field f (getFromStorage now' (saveToStorage now data br))) = v)
     \<and> (get_partial f data = Given v \<longrightarrow>
            get_field f (getFromStorage now' (saveToStorage now data br)) =
              (case to_json v of
                 None \<Rightarrow> get_field f (defaultState now')
               | Some j \<Rightarrow> if valid_field f j then j else get_field f (defaultState now')))
     \<and> (get_partial f data = Absent \<longrightarrow>
            get_field f (getFromStorage now' (saveToStorage now data br))
              = get_field f (getFromStorage now br))
     \<and> (get_partial f data = Absent \<and> stored_member br (field_key f) = Some j \<and>
          valid_field f j \<longrightarrow>
            get_field f (getFromStorage now' (saveToStorage now data br)) = j)"
proof (intro conjI impI)
  note l = load_after_save_field [OF assms, of _ now']
  have given: "of_json (get_field g (getFromStorage now' (saveToStorage now d br))) = w"
    if "get_partial g d = Given w" "valid_value g w" "json_value w" for g d w
  proof -
    from that(3) obtain j' where j: "to_json w = Some j'" "of_json j' = w"
      by (auto simp: json_value_def split: option.splits)
    with that(2) have "valid_field g j'"
      by (simp add: valid_to_json)
    with that(1) j show ?thesis
      by (simp add: l)
  qed
  show "\<forall>f. of_json (get_field f (getFromStorage now' (saveToStorage now (whole_state st) br)))
      = state_field f st"
    if h: "\<forall>f. valid_value f (state_field f st) \<and> json_value (state_field f st)"
  proof
    fix g
    have "get_partial g (whole_state st) = Given (state_field g st)"
      by (cases g) (simp_all add: get_partial_def whole_state_def state_field_def)
    with h [THEN spec, of g] show
      "of_json (get_field g (getFromStorage now' (saveToStorage now (whole_state st) br)))
        = state_field g st"
      by (intro given) simp_all
  qed
  show "of_json (get_field f (getFromStorage now' (saveToStorage now data br))) = v"
    if "get_partial f data = Given v \<and> valid_value f v \<and> json_value v"
    using that by (intro given) simp_all
  show "get_field f (getFromStorage now' (saveToStorage now data br)) =
      (case to_json v of
         None \<Rightarrow> get_field f (defaultState now')
       | Some j \<Rightarrow> if valid_field f j then j else get_field f (defaultState now'))"
    if "get_partial f data = Given v"
    using that by (simp add: l)
  show absent: "get_field f (getFromStorage now' (saveToStorage now data br))
      = get_field f (getFromStorage now br)"
    if "get_partial f data = Absent"
    using that by (simp add: l)
  show "get_field f (getFromStorage now' (saveToStorage now data br)) = j"
    if h: "get_partial f data = Absent \<and> stored_member br (field_key f) = Some j \<and>
          valid_field f j"
  proof -
    from h have "get_field f (getFromStorage now br) = j"
      by (cases f)
        (simp_all add: get_field_def field_key_def valid_field_def getFromStorage_members
          array_or_def truthy_or_def)
    with absent h show ?thesis by simp
  qed
qed

theorem save_load_roundtrip_witness:
  "(\<forall>f. of_json (get_field f
           (getFromStorage 7 (saveToStorage 3 (whole_state sample_state) fresh_browser)))
         = state_field f sample_state)
   \<and> of_json (get_field Polygons (getFromStorage 9 (saveToStorage 8 only_polygons wind_browser)))
       = VArr []
   \<and> get_field ColorRules
       (getFromStorage 9 (saveToStorage 8 (whole_state nan_state) wind_browser))
       = JArr [JObj [(''id'', JStr ''temp-default''), (''dataSource'', JStr ''temperature''),
                     (''conditions'',
                        JArr [JObj [(''min'', JNull), (''max'', JNum 10),
                                    (''color'', JStr ''#06b6d4''), (''label'', JStr ''Cold'')]])]]
   \<and> get_field MapView (getFromStorage 9 (saveToStorage 8 only_polygons wind_browser))
       = get_field MapView (getFromStorage 8 wind_browser)
   \<and> get_field SelectedDataSource (getFromStorage 9 (saveToStorage 8 only_polygons wind_browser))
       = JStr ''windSpeed''"
proof -
  have env: "has_window fresh_browser" "readable fresh_browser" "writable fresh_browser"
    by (simp_all add: fresh_browser_def)
  have env': "has_window wind_browser" "readable wind_browser" "writable wind_browser"
    by (simp_all add: fresh_browser_def wind_browser_def)
  have v: "\<forall>f. valid_value f (state_field f sample_state)
      \<and> json_value (state_field f sample_state)"
  proof
    fix f show "valid_value f (state_field f sample_state)
        \<and> json_value (state_field f sample_state)"
      by (cases f) (simp_all add: valid_value_def state_field_def sample_state_def
          isArray_value_def truthy_value_def json_value_def)
  qed
  have g: "get_partial Polygons only_polygons = Given (VArr []) \<and>
      valid_value Polygons (VArr []) \<and> json_value (VArr [])"
    by (simp add: get_partial_def only_polygons_def valid_value_def isArray_value_def
        json_value_def)
  have n: "get_partial ColorRules (whole_state nan_state) = Given (colorRules_s nan_state)"
    by (simp add: get_partial_def whole_state_def)
  have m: "get_partial MapView only_polygons = Absent"
    by (simp add: get_partial_def only_polygons_def)
  have k: "get_partial SelectedDataSource only_polygons = Absent \<and>
      stored_member wind_browser (field_key SelectedDataSource) = Some (JStr ''windSpeed'') \<and>
      valid_field SelectedDataSource (JStr ''windSpeed'')"
    by (simp add: get_partial_def only_polygons_def valid_field_def truthy_def stored_member_def
        wind_browser_def fresh_browser_def member_of_def field_key_def)
  note a = save_load_roundtrip [OF env, where st = sample_state and now' = 7 and now = 3,
      THEN conjunct1, THEN mp, OF v]
  note b = save_load_roundtrip [OF env', where f = Polygons and data = only_polygons
      and v = "VArr []" and now' = 9 and now = 8, THEN conjunct2, THEN conjunct1, THEN mp, OF g]
  note c = save_load_roundtrip [OF env', where f = ColorRules
      and data = "whole_state nan_state" and v = "colorRules_s nan_state" and now' = 9
      and now = 8, THEN conjunct2, THEN conjunct2, THEN conjunct1, THEN mp, OF n]
  note d = save_load_roundtrip [OF env', where f = MapView and data = only_polygons
      and now' = 9 and now = 8,
      THEN conjunct2, THEN conjunct2, THEN conjunct2, THEN conjunct1, THEN mp, OF m]
  note e = save_load_roundtrip [OF env', where f = SelectedDataSource and data = only_polygons
      and j = "JStr ''windSpeed''" and now' = 9 and now = 8,
      THEN conjunct2, THEN conjunct2, THEN conjunct2, THEN conjunct2, THEN mp, OF k]
  have c': "get_field ColorRules
       (getFromStorage 9 (saveToStorage 8 (whole_state nan_state) wind_browser))
       = JArr [JObj [(''id'', JStr ''temp-default''), (''dataSource'', JStr ''temperature''),
                     (''conditions'',
                        JArr [JObj [(''min'', JNull), (''max'', JNum 10),
                                    (''color'', JStr ''#06b6d4''), (''label'', JStr ''Cold'')]])]]"
    unfolding c by (simp add: nan_state_def sample_state_def valid_field_def isArray_def)
  from a b c' d e show ?thesis
    by (intro conjI)
qed

text \<open>
  A stored blob whose \<open>selectedDataSource\<close> is the number \<open>42\<close>: the load returns the number,
  which is truthy, so the member returned is not a string.  So the last part of claim C10
  fails there.
\<close>

theorem selectedDataSource_not_string:
  "selectedDataSource (getFromStorage 0 number_browser) = JNum 42 \<and> \<not> isString (JNum 42)"
  by (simp add: getFromStorage_def fresh_browser_def number_browser_def member_of_def
      truthy_or_def truthy_def isString_def)

text \<open>
  Claim C10, as amended.  Whatever is stored, the polygons and the colour rules that a load
  returns are arrays: the stored member when that is an array, the default (the empty
  list, the four default rules) when the member is absent, not an array, or the blob
  cannot be read.  The \<open>selectedDataSource\<close> returned is truthy, so never the empty
  string: the stored member when that is truthy, whatever its type, and \<open>temperature\<close>
  otherwise.
\<close>

theorem getFromStorage_shape:
  "isArray (polygons (getFromStorage now br))
   \<and> isArray (colorRules (getFromStorage now br))
   \<and> polygons (getFromStorage now br) =
        (case stored_member br ''polygons'' of
           None \<Rightarrow> JArr []
         | Some v \<Rightarrow> if isArray v then v else JArr [])
   \<and> colorRules (getFromStorage now br) =
        (case stored_member br ''colorRules'' of
           None \<Rightarrow> default_colorRules
         | Some v \<Rightarrow> if isArray v then v else default_colorRules)
   \<and> truthy (selectedDataSource (getFromStorage now br))
   \<and> selectedDataSource (getFromStorage now br) \<noteq> JStr []
   \<and> selectedDataSource (getFromStorage now br) =
        (case stored_member br ''selectedDataSource'' of
           None \<Rightarrow> JStr ''temperature''
         | Some v \<Rightarrow> if truthy v then v else JStr ''temperature'')"
proof -
  have "truthy (selectedDataSource (getFromStorage now br))"
    by (rule getFromStorage_valid)
  then have "selectedDataSource (getFromStorage now br) \<noteq> JStr []"
    by (auto simp: truthy_def)
  then show ?thesis
    using getFromStorage_valid [of now br] getFromStorage_members [of now br]
    by (simp add: array_or_def truthy_or_def)
qed


end
